theory Spec2Isabelle
  imports Main "HOL-Library.AList"
begin

text \<open>
  A shallow embedding of the command/response coordination layer of the browser
  remote-control extension: the instrumentation session manager
  (\<open>debuggerService.js\<close>), the correlated channel (\<open>chrome-client.js\<close>), the stability
  detector (\<open>domUtils.js\<close>), the tab lifecycle coordinator (\<open>tabService.js\<close>), the click
  primitive (\<open>interactionService.js\<close>) and the batch executor
  (\<open>batchCommandHandler.js\<close>).

  The code runs on one event loop.  Every callback runs to completion before the next
  one starts, so a callback is a function from state to state, and the interleaving of
  callbacks is a list of events chosen by the environment.  Answers of the browser are
  inputs: a host call that may reject has the result type \<open>string + 'a\<close>, \<open>Inl\<close>
  carrying the error message.  All definitions come first; the proofs follow.
\<close>

section \<open>Instrumentation session manager (debuggerService.js)\<close>

text \<open>
  Tab ids are Chrome's positive integers; the JavaScript tests \<open>!tabId\<close> and
  \<open>if (debugTarget)\<close> are falsy on \<open>0\<close>, \<open>null\<close> and \<open>undefined\<close>.  A tab id is a
  \<open>nat\<close> whose value \<open>0\<close> stands for every falsy id, and the module-level variable
  \<open>debugTarget\<close> (\<open>null\<close> or \<open>{tabId}\<close>) is a \<open>nat option\<close>.

  One entry of \<open>chrome.debugger.getTargets()\<close>: the tab id the target belongs to (absent
  for workers and other non-tab targets) and its \<open>attached\<close> flag.
\<close>

type_synonym tab_id = nat

type_synonym 'a host_result = "string + 'a"

record target_info =
  target_tabId :: "tab_id option"
  target_attached :: bool

text \<open>
  The answers the browser gives during one run of \<open>attachDebugger\<close>, one field per call
  site of the source, in source order.
\<close>

record attach_host =
  targets_initial :: "target_info list host_result"   \<comment> \<open>line 110, \<open>isDebuggerAttached(tabId)\<close>\<close>
  targets_previous :: "target_info list host_result"  \<comment> \<open>line 65, for the old target\<close>
  clear_override :: "unit host_result"                \<comment> \<open>line 70\<close>
  detach_previous :: "unit host_result"               \<comment> \<open>line 81\<close>
  attach_call :: "unit host_result"                   \<comment> \<open>line 128\<close>
  page_enable :: "unit host_result"                   \<comment> \<open>line 132\<close>
  runtime_enable :: "unit host_result"                \<comment> \<open>line 133\<close>
  dom_enable :: "unit host_result"                    \<comment> \<open>line 134\<close>
  targets_verify :: "target_info list host_result"    \<comment> \<open>line 140\<close>

text \<open>\<open>isDebuggerAttached\<close>: a rejected \<open>getTargets\<close> is caught and answers \<open>false\<close>.\<close>

definition isDebuggerAttached :: "tab_id \<Rightarrow> target_info list host_result \<Rightarrow> bool" where
  "isDebuggerAttached tabId answer =
     (case answer of
        Inl _ \<Rightarrow> False
      | Inr targets \<Rightarrow>
          list_ex (\<lambda>t. target_tabId t = Some tabId \<and> target_attached t) targets)"

text \<open>
  \<open>safelyDetachPreviousDebugger\<close>: both host commands sit in their own \<open>try\<close>/\<open>catch\<close>,
  so their outcome does not change the result; the global reference is cleared
  whenever the old target is another tab.
\<close>

definition safelyDetachPreviousDebugger ::
  "tab_id \<Rightarrow> attach_host \<Rightarrow> tab_id option \<Rightarrow> tab_id option" where
  "safelyDetachPreviousDebugger tabId host debugTarget =
     (case debugTarget of
        None \<Rightarrow> None
      | Some old \<Rightarrow>
          if old = tabId then Some old
          else if isDebuggerAttached old (targets_previous host)
          then (case clear_override host of
                  Inl _ \<Rightarrow> (case detach_previous host of Inl _ \<Rightarrow> None | Inr _ \<Rightarrow> None)
                | Inr _ \<Rightarrow> (case detach_previous host of Inl _ \<Rightarrow> None | Inr _ \<Rightarrow> None))
          else None)"

text \<open>
  \<open>attachDebugger\<close> returns its boolean together with the value of \<open>debugTarget\<close> when
  it returns.  \<open>attach_catch\<close> is the \<open>catch\<close> block of lines 149 to 158.
\<close>

definition attach_catch :: "tab_id \<Rightarrow> tab_id option \<Rightarrow> bool \<times> tab_id option" where
  "attach_catch tabId debugTarget =
     (False, if debugTarget = Some tabId then None else debugTarget)"

definition attachDebugger ::
  "tab_id \<Rightarrow> attach_host \<Rightarrow> tab_id option \<Rightarrow> bool \<times> tab_id option" where
  "attachDebugger tabId host debugTarget =
     (if tabId = 0 then (False, debugTarget)
      else if isDebuggerAttached tabId (targets_initial host)
      then (True, Some tabId)
      else
        let dt = safelyDetachPreviousDebugger tabId host debugTarget in
        case attach_call host of
          Inl _ \<Rightarrow> attach_catch tabId dt
        | Inr _ \<Rightarrow>
        (case page_enable host of
          Inl _ \<Rightarrow> attach_catch tabId dt
        | Inr _ \<Rightarrow>
        (case runtime_enable host of
          Inl _ \<Rightarrow> attach_catch tabId dt
        | Inr _ \<Rightarrow>
        (case dom_enable host of
          Inl _ \<Rightarrow> attach_catch tabId dt
        | Inr _ \<Rightarrow>
            if \<not> isDebuggerAttached tabId (targets_verify host)
            then (False, Some tabId)
            else (True, Some tabId)))))"

text \<open>
  A browser in which every command of the attach sequence succeeds and the target list
  read afterwards shows tab 7 as not attached.
\<close>

definition silent_attach_host :: attach_host where
  "silent_attach_host =
     \<lparr>targets_initial = Inr [], targets_previous = Inr [],
      clear_override = Inr (), detach_previous = Inr (),
      attach_call = Inr (), page_enable = Inr (), runtime_enable = Inr (),
      dom_enable = Inr (),
      targets_verify = Inr [\<lparr>target_tabId = Some 7, target_attached = False\<rparr>]\<rparr>"

section \<open>Correlated channel (chrome-client.js)\<close>

text \<open>
  \<open>sendMessageToClient\<close> builds the id \<open>`req-${this.requestIdCounter++}`\<close>: the text
  \<open>req-\<close> followed by the decimal digits of the counter.
\<close>

type_synonym request_id = string

definition digit_char :: "nat \<Rightarrow> char" where
  "digit_char d = ''0123456789'' ! d"

fun decimal :: "nat \<Rightarrow> string" where
  "decimal n = (if n < 10 then [digit_char n] else decimal (n div 10) @ [digit_char (n mod 10)])"

definition requestId_of :: "nat \<Rightarrow> request_id" where
  "requestId_of n = ''req-'' @ decimal n"

text \<open>
  A parsed message from the extension.  Absent JSON fields are \<open>None\<close>; a string is
  truthy when it is present and not empty, a number when it is present and not zero,
  an object when it is present.  The fields that \<open>handleMessageFromClient\<close> only copies into
  the resolved value and that no property below reads (\<open>logs\<close>, \<open>currentMousePosition\<close>,
  \<open>viewportSize\<close>, \<open>analysisResult\<close>, \<open>tabs\<close>) travel together in \<open>msg_rest\<close>.  A
  \<open>requestId\<close> that is not a string can match no key of the pending map and behaves
  like a string without an entry.
\<close>

record message =
  msg_requestId :: "string option"
  msg_status :: "string option"
  msg_command :: "string option"
  msg_message :: "string option"
  msg_currentUrl :: "string option"
  msg_url :: "string option"
  msg_viewport :: "(nat \<times> nat) option"
  msg_screenshot :: "string option"
  msg_tabId :: "nat option"
  msg_htmlContent :: "string option"
  msg_newTabOpened :: bool
  msg_newTabId :: "nat option"
  msg_newTabUrl :: "string option"
  msg_rest :: "string option"

definition truthy :: "string option \<Rightarrow> bool" where
  "truthy s = (case s of None \<Rightarrow> False | Some x \<Rightarrow> x \<noteq> [])"

definition js_or :: "string option \<Rightarrow> string option \<Rightarrow> string option" where
  "js_or a b = (if truthy a then a else b)"

definition truthy_id :: "nat option \<Rightarrow> bool" where
  "truthy_id t = (case t of None \<Rightarrow> False | Some n \<Rightarrow> n \<noteq> 0)"

text \<open>The value a pending promise is resolved with.\<close>

record response =
  rsp_status :: string
  rsp_message :: "string option"
  rsp_screenshot :: "string option"
  rsp_currentUrl :: "string option"
  rsp_tabId :: "nat option"
  rsp_htmlContent :: "string option"
  rsp_rest :: "string option"
  rsp_newTabOpened :: "bool option"
  rsp_newTabId :: "nat option"
  rsp_newTabUrl :: "string option"
  rsp_viewport :: "(nat \<times> nat) option"

datatype outcome = Resolved response | Rejected string

text \<open>
  The client object.  \<open>pendingRequests\<close> is a JavaScript \<open>Map\<close>, which iterates in
  insertion order: an association list, with \<open>AList.update\<close> for \<open>set\<close> (in place when
  the key exists, at the end otherwise) and \<open>AList.delete\<close> for \<open>delete\<close>.  An entry holds
  the command name; its \<open>resolve\<close> and \<open>reject\<close> belong to the promise made by
  \<open>waitForResponse\<close> for the key, so a call of either is recorded in the log \<open>settled\<close>
  under that key.  The log is not state of the program: it is what the properties below count.
  Timers are not stored: the timeout callback of any request may run at any moment,
  whether \<open>clearTimeout\<close> was called or not, which covers every schedule of the real
  timers (the teardown handlers of lines 212, 223 and 244 do leave them armed).
\<close>

record client =
  pendingRequests :: "(request_id \<times> string) list"
  requestIdCounter :: nat
  currentUrl :: "string option"
  viewport :: "nat \<times> nat"
  connected :: bool
  settled :: "(request_id \<times> outcome) list"

definition settle :: "request_id \<Rightarrow> outcome \<Rightarrow> client \<Rightarrow> client" where
  "settle reqId out c = c\<lparr>settled := settled c @ [(reqId, out)]\<rparr>"

definition viewport_ack :: "client \<Rightarrow> response" where
  "viewport_ack c =
     \<lparr>rsp_status = ''success'', rsp_message = Some ''Viewport configuration applied'',
      rsp_screenshot = None, rsp_currentUrl = None, rsp_tabId = None, rsp_htmlContent = None,
      rsp_rest = None, rsp_newTabOpened = None, rsp_newTabId = None, rsp_newTabUrl = None,
      rsp_viewport = Some (viewport c)\<rparr>"

definition success_response :: "message \<Rightarrow> response" where
  "success_response m =
     \<lparr>rsp_status = ''success'', rsp_message = msg_message m,
      rsp_screenshot = msg_screenshot m,
      rsp_currentUrl = js_or (msg_currentUrl m) (msg_url m),
      rsp_tabId = msg_tabId m, rsp_htmlContent = msg_htmlContent m,
      rsp_rest = msg_rest m,
      rsp_newTabOpened = (if msg_newTabOpened m then Some True else None),
      rsp_newTabId = (if truthy_id (msg_newTabId m) then msg_newTabId m else None),
      rsp_newTabUrl = (if truthy (msg_newTabUrl m) then msg_newTabUrl m else None),
      rsp_viewport = None\<rparr>"

definition show_status :: "string option \<Rightarrow> string" where
  "show_status s = (case s of None \<Rightarrow> ''undefined'' | Some x \<Rightarrow> x)"

text \<open>\<open>handleMessageFromClient\<close> (lines 279 to 364), branch by branch in source order.\<close>

definition error_text :: "message \<Rightarrow> string \<Rightarrow> string" where
  "error_text m cmd =
     (case msg_message m of
        None \<Rightarrow> ''Command '' @ [CHR 0x27] @ cmd @ [CHR 0x27] @ '' failed.''
      | Some t \<Rightarrow> if t = [] then ''Command '' @ [CHR 0x27] @ cmd @ [CHR 0x27] @ '' failed.'' else t)"

definition unhandled_text :: "message \<Rightarrow> string \<Rightarrow> string" where
  "unhandled_text m cmd =
     ''Received unhandled status '' @ [CHR 0x27] @ show_status (msg_status m) @ [CHR 0x27]
       @ '' for command '' @ [CHR 0x27] @ cmd @ [CHR 0x27] @ ''.''"

definition update_currentUrl :: "message \<Rightarrow> client \<Rightarrow> client" where
  "update_currentUrl m c =
     (if truthy (msg_currentUrl m) then c\<lparr>currentUrl := msg_currentUrl m\<rparr>
      else if truthy (msg_url m) then c\<lparr>currentUrl := msg_url m\<rparr>
      else c)"

definition viewport_ack_fallback :: "client \<Rightarrow> client" where
  "viewport_ack_fallback c =
     (case find (\<lambda>entry. snd entry = ''setViewportConfig'') (pendingRequests c) of
        Some entry \<Rightarrow>
          settle (fst entry) (Resolved (viewport_ack c))
            (c\<lparr>pendingRequests := AList.delete (fst entry) (pendingRequests c)\<rparr>)
      | None \<Rightarrow> c)"

definition regular_response :: "request_id \<Rightarrow> message \<Rightarrow> client \<Rightarrow> client" where
  "regular_response requestId m c =
     (case map_of (pendingRequests c) requestId of
        None \<Rightarrow> c
      | Some cmd \<Rightarrow>
          (let c1 = c\<lparr>pendingRequests := AList.delete requestId (pendingRequests c)\<rparr> in
           if msg_status m = Some ''error''
           then settle requestId (Rejected (error_text m cmd)) c1
           else if msg_status m = Some ''ack'' \<or> msg_status m = Some ''success''
           then settle requestId (Resolved (success_response m)) (update_currentUrl m c1)
           else settle requestId (Rejected (unhandled_text m cmd)) c1))"

definition handleMessageFromClient :: "message \<Rightarrow> client \<Rightarrow> client" where
  "handleMessageFromClient m c =
     (if msg_command m = Some ''viewportSync'' \<and> msg_viewport m \<noteq> None
      then (case msg_viewport m of Some v \<Rightarrow> c\<lparr>viewport := v\<rparr> | None \<Rightarrow> c)
      else if \<not> truthy (msg_requestId m) \<and> msg_command m = Some ''setViewportConfig''
                \<and> msg_status m = Some ''ack''
      then viewport_ack_fallback c
      else if \<not> truthy (msg_requestId m) then c
      else (case msg_requestId m of
              None \<Rightarrow> c
            | Some requestId \<Rightarrow> regular_response requestId m c))"

text \<open>
  \<open>sendMessageToClient\<close> increments the counter before it tests the socket, so a failed
  send uses up an id.  \<open>send_error\<close> is the error that \<open>clientSocket.send\<close> throws, if it
  throws; the function throws it again.
\<close>

definition sendMessageToClient ::
  "string option \<Rightarrow> client \<Rightarrow> (string + request_id) \<times> client" where
  "sendMessageToClient send_error c =
     (let requestId = requestId_of (requestIdCounter c);
          c' = c\<lparr>requestIdCounter := requestIdCounter c + 1\<rparr>
      in if \<not> connected c then (Inl ''Chrome extension client is not connected.'', c')
         else (case send_error of
                 Some err \<Rightarrow> (Inl err, c')
               | None \<Rightarrow> (Inr requestId, c')))"

definition waitForResponse :: "request_id \<Rightarrow> string \<Rightarrow> client \<Rightarrow> client" where
  "waitForResponse requestId cmd c =
     c\<lparr>pendingRequests := AList.update requestId cmd (pendingRequests c)\<rparr>"

text \<open>The callback of the timer that \<open>waitForResponse\<close> arms (lines 395 to 405).\<close>

definition timeout_text :: "request_id \<Rightarrow> string \<Rightarrow> string" where
  "timeout_text requestId cmd =
     ''Timeout waiting for response for command '' @ cmd @ '' (ID: '' @ requestId @ '')''"

definition timeoutCallback :: "request_id \<Rightarrow> string \<Rightarrow> client \<Rightarrow> client" where
  "timeoutCallback requestId cmd c =
     (if requestId \<in> fst ` set (pendingRequests c)
      then (settle requestId (Rejected (timeout_text requestId cmd)) c)
           \<lparr>pendingRequests := AList.delete requestId (pendingRequests c)\<rparr>
      else c)"

text \<open>
  Teardown (socket \<open>close\<close> and \<open>error\<close>, server \<open>error\<close>, \<open>dispose\<close>): reject every
  entry, then clear the map.  \<open>startWebSocketServer\<close> clears the map without rejecting.
\<close>

definition rejectAll :: "string \<Rightarrow> client \<Rightarrow> client" where
  "rejectAll err c =
     (fold (\<lambda>(reqId, cmd). settle reqId (Rejected err)) (pendingRequests c) c)
       \<lparr>pendingRequests := []\<rparr>"

text \<open>
  What can happen to a client.  \<open>Request\<close> is the pair of calls every command method
  makes: \<open>sendMessageToClient\<close>, then \<open>waitForResponse\<close> on the id it returned;
  \<open>Stores\<close> is a command method assigning \<open>this.viewport\<close> or \<open>this.currentUrl\<close>, as
  \<open>setViewport\<close> and \<open>navigate\<close> do.  The teardown handlers act under guards
  (\<open>this.clientSocket === ws\<close>, the early return of \<open>dispose\<close>); a handler whose guard
  fails does nothing, which is the run without that event.
\<close>

datatype channel_event =
    Request string "string option"
  | Deliver message
  | TimerFires request_id string
  | SocketLost string
  | Dispose
  | Restart
  | Connect
  | Stores "(nat \<times> nat) option" "string option"

definition send_and_wait :: "string \<Rightarrow> string option \<Rightarrow> client \<Rightarrow> client" where
  "send_and_wait cmd send_error c =
     (case sendMessageToClient send_error c of
        (Inl _, c') \<Rightarrow> c'
      | (Inr requestId, c') \<Rightarrow> waitForResponse requestId cmd c')"

fun channel_step :: "channel_event \<Rightarrow> client \<Rightarrow> client" where
  "channel_step (Request cmd send_error) c = send_and_wait cmd send_error c"
| "channel_step (Deliver m) c = handleMessageFromClient m c"
| "channel_step (TimerFires requestId cmd) c = timeoutCallback requestId cmd c"
| "channel_step (SocketLost err) c = (rejectAll err c)\<lparr>connected := False\<rparr>"
| "channel_step Dispose c = (rejectAll ''Client disposed.'' c)\<lparr>connected := False\<rparr>"
| "channel_step Restart c = c\<lparr>pendingRequests := [], connected := False\<rparr>"
| "channel_step Connect c = c\<lparr>connected := True\<rparr>"
| "channel_step (Stores v u) c =
     c\<lparr>viewport := (case v of None \<Rightarrow> viewport c | Some x \<Rightarrow> x),
       currentUrl := (case u of None \<Rightarrow> currentUrl c | Some x \<Rightarrow> Some x)\<rparr>"

definition client0 :: client where
  "client0 = \<lparr>pendingRequests = [], requestIdCounter = 0, currentUrl = None,
              viewport = (800, 600), connected = False, settled = []\<rparr>"

definition channel_run :: "channel_event list \<Rightarrow> client \<Rightarrow> client" where
  "channel_run evs c = fold channel_step evs c"

text \<open>The ids handed out so far, and the invariant of the channel.\<close>

definition issued_upto :: "nat \<Rightarrow> request_id set" where
  "issued_upto n = requestId_of ` {k. k < n}"

abbreviation issued :: "client \<Rightarrow> request_id set" where
  "issued c \<equiv> issued_upto (requestIdCounter c)"

definition channel_inv :: "client \<Rightarrow> bool" where
  "channel_inv c \<longleftrightarrow>
     distinct (map fst (pendingRequests c)) \<and>
     distinct (map fst (settled c)) \<and>
     fst ` set (pendingRequests c) \<subseteq> issued c \<and>
     fst ` set (settled c) \<subseteq> issued c \<and>
     fst ` set (pendingRequests c) \<inter> fst ` set (settled c) = {}"

text \<open>The guard of the first branch of \<open>handleMessageFromClient\<close>.\<close>

definition viewport_sync :: "message \<Rightarrow> bool" where
  "viewport_sync m \<longleftrightarrow> msg_command m = Some ''viewportSync'' \<and> msg_viewport m \<noteq> None"

text \<open>
  Concrete messages and client states used by the examples: a response to a click, a
  \<open>viewportSync\<close> message that also carries the id \<open>req-0\<close>, and the acknowledgement of
  \<open>setViewportConfig\<close> as the extension sends it, without a request id.
\<close>

definition reply :: "request_id \<Rightarrow> string \<Rightarrow> message" where
  "reply requestId st =
     \<lparr>msg_requestId = Some requestId, msg_status = Some st, msg_command = Some ''click'',
      msg_message = None, msg_currentUrl = None, msg_url = None, msg_viewport = None,
      msg_screenshot = None, msg_tabId = None, msg_htmlContent = None,
      msg_newTabOpened = False, msg_newTabId = None, msg_newTabUrl = None, msg_rest = None\<rparr>"

definition stray_viewport_sync :: message where
  "stray_viewport_sync =
     (reply (requestId_of 0) ''success'')
       \<lparr>msg_command := Some ''viewportSync'', msg_viewport := Some (1280, 720)\<rparr>"

definition bare_viewport_ack :: message where
  "bare_viewport_ack =
     (reply [] ''ack'')\<lparr>msg_requestId := None, msg_command := Some ''setViewportConfig''\<rparr>"

definition answered_once :: client where
  "answered_once =
     channel_run [Connect, Request ''click'' None, Deliver (reply (requestId_of 0) ''success'')] client0"

definition two_viewport_requests :: client where
  "two_viewport_requests =
     channel_run [Connect, Request ''setViewportConfig'' None, Request ''setViewportConfig'' None] client0"

section \<open>Stability detector (waitTillHTMLStable)\<close>

text \<open>
  One sampling attempt, as the browser answers it.  \<open>chrome.tabs.get\<close> rejects
  (\<open>TabMissing\<close>) or reports the tab as loading (\<open>TabLoading\<close>); otherwise the script
  returns the length of the serialized document (\<open>ScriptValue\<close>), returns no usable
  result (\<open>ScriptNoValue\<close>), or \<open>executeScript\<close> rejects.  The \<open>catch\<close> block of
  \<open>getHtmlSize\<close> sorts a rejection by its message, in this order: a message that
  contains \<open>No tab with id\<close> or \<open>Cannot access contents of url\<close> (\<open>NoSuchTab\<close>), else one
  that contains \<open>Script execution failed\<close> or \<open>execution context\<close> (\<open>NotReady\<close>), else any
  other (\<open>OtherFailure\<close>).  A rejection that carries no message text (\<open>NoMessage\<close>) makes
  the test \<open>error.message.includes\<close> itself throw.  The injected function returns a
  number, so a usable result is a natural number.
\<close>

datatype script_failure = NoSuchTab | NotReady | OtherFailure | NoMessage

datatype probe =
    TabMissing
  | TabLoading
  | ScriptValue nat
  | ScriptNoValue
  | ScriptThrows script_failure

text \<open>
  One pass of the loop as the environment sees it: the probe, and the time in
  milliseconds that the host calls of the probe take (the 50 ms pause of line 34
  included).
\<close>

record tick =
  tick_probe :: probe
  tick_latency :: nat

definition maxErrors :: nat where
  "maxErrors = 3"

text \<open>
  \<open>getHtmlSize\<close> takes and returns the counter \<open>errorCount\<close>; \<open>Inl\<close> is the
  \<open>throw error\<close> of line 66.
\<close>

fun getHtmlSize :: "nat \<Rightarrow> probe \<Rightarrow> (script_failure + int) \<times> nat" where
  "getHtmlSize errorCount TabMissing = (Inr (- 1), errorCount)"
| "getHtmlSize errorCount TabLoading = (Inr 0, errorCount)"
| "getHtmlSize errorCount (ScriptValue n) = (Inr (int n), 0)"
| "getHtmlSize errorCount ScriptNoValue = (Inr 0, errorCount)"
| "getHtmlSize errorCount (ScriptThrows NoSuchTab) =
     (if errorCount + 1 \<ge> maxErrors then Inr (- 1) else Inr 0, errorCount + 1)"
| "getHtmlSize errorCount (ScriptThrows NotReady) = (Inr 0, errorCount + 1)"
| "getHtmlSize errorCount (ScriptThrows OtherFailure) =
     (if errorCount + 1 \<ge> maxErrors then Inl OtherFailure else Inr 0, errorCount + 1)"
| "getHtmlSize errorCount (ScriptThrows NoMessage) = (Inl NoMessage, errorCount + 1)"

text \<open>
  The variables of \<open>waitTillHTMLStable\<close>, with \<open>elapsed\<close> for \<open>Date.now() - startTime\<close>.
  \<open>history\<close> is not a variable of the program: it lists the sizes returned so far, the
  most recent first, so that the properties can speak about consecutive samples.
\<close>

record wait_state =
  lastHTMLSize :: int
  stableCount :: nat
  errorCount :: nat
  elapsed :: int
  history :: "int list"

datatype wait_exit = Stable | TabVanished | TimedOut

text \<open>\<open>setTimeout(resolve, ms)\<close> waits \<open>ms\<close> milliseconds, none for a negative \<open>ms\<close>.\<close>

definition sleep :: "int \<Rightarrow> int" where
  "sleep ms = max 0 ms"

definition nextCount :: "wait_state \<Rightarrow> int \<Rightarrow> nat" where
  "nextCount s currentHTMLSize =
     (if lastHTMLSize s \<noteq> 0 \<and> currentHTMLSize = lastHTMLSize s then stableCount s + 1 else 0)"

text \<open>
  The \<open>while\<close> loop of lines 73 to 104, by recursion on the passes the environment
  supplies.  A pass is supplied when the host calls of \<open>getHtmlSize\<close> have answered;
  the loop awaits them without a timeout of its own.  \<open>None\<close> means that the loop is
  still running when the supplied passes are used up, waiting for the host to answer
  the next one; the three exits are the three \<open>return\<close>s of the function, all of them
  normal: the only \<open>throw\<close> is the one inside \<open>getHtmlSize\<close>, and the loop catches it.
\<close>

fun stabilityLoop ::
  "int \<Rightarrow> int \<Rightarrow> int \<Rightarrow> wait_state \<Rightarrow> tick list \<Rightarrow> (wait_exit \<times> wait_state) option" where
  "stabilityLoop timeout checkInterval stableIterations s [] =
     (if elapsed s < timeout then None else Some (TimedOut, s))"
| "stabilityLoop timeout checkInterval stableIterations s (t # ts) =
     (if \<not> elapsed s < timeout then Some (TimedOut, s)
      else
        case getHtmlSize (errorCount s) (tick_probe t) of
          (Inl err, ec) \<Rightarrow>
            (let s' = s\<lparr>errorCount := ec,
                         elapsed := elapsed s + int (tick_latency t) + sleep checkInterval\<rparr>
             in if elapsed s' > timeout - checkInterval then Some (TimedOut, s')
                else stabilityLoop timeout checkInterval stableIterations s' ts)
        | (Inr currentHTMLSize, ec) \<Rightarrow>
            (let s1 = s\<lparr>errorCount := ec, elapsed := elapsed s + int (tick_latency t)\<rparr>
             in if currentHTMLSize = - 1 then Some (TabVanished, s1)
                else
                  let s2 = s1\<lparr>stableCount := nextCount s currentHTMLSize,
                                history := currentHTMLSize # history s\<rparr>
                  in if int (stableCount s2) \<ge> stableIterations then Some (Stable, s2)
                     else stabilityLoop timeout checkInterval stableIterations
                            (s2\<lparr>lastHTMLSize := currentHTMLSize,
                                 elapsed := elapsed s2 + sleep checkInterval\<rparr>) ts))"

definition wait_state0 :: wait_state where
  "wait_state0 = \<lparr>lastHTMLSize = 0, stableCount = 0, errorCount = 0, elapsed = 0, history = []\<rparr>"

definition waitTillHTMLStable ::
  "int \<Rightarrow> int \<Rightarrow> int \<Rightarrow> tick list \<Rightarrow> (wait_exit \<times> wait_state) option" where
  "waitTillHTMLStable timeout checkInterval stableIterations ticks =
     stabilityLoop timeout checkInterval stableIterations wait_state0 ticks"

text \<open>A pass whose probe reads the size \<open>n\<close> and takes the 50 ms of the pause.\<close>

definition sample :: "nat \<Rightarrow> tick" where
  "sample n = \<lparr>tick_probe = ScriptValue n, tick_latency = 50\<rparr>"

text \<open>The spec's words: the k most recent samples are numerically equal and nonzero.\<close>

definition equal_run :: "nat \<Rightarrow> int list \<Rightarrow> bool" where
  "equal_run k recent \<longleftrightarrow>
     1 \<le> k \<and> k \<le> length recent \<and> hd recent \<noteq> 0 \<and>
     take k recent = replicate k (hd recent)"

text \<open>At no earlier moment were the \<open>k + 1\<close> most recent samples equal and nonzero.\<close>

definition never_stable :: "nat \<Rightarrow> int list \<Rightarrow> bool" where
  "never_stable k recent \<longleftrightarrow>
     (\<forall>n < length recent. \<not> equal_run (k + 1) (drop n recent))"


text \<open>What \<open>stableCount\<close> holds after the samples \<open>recent\<close>, and the loop invariant.\<close>

fun matches :: "int list \<Rightarrow> nat" where
  "matches [] = 0"
| "matches [v] = 0"
| "matches (v # w # rest) = (if w \<noteq> 0 \<and> v = w then matches (w # rest) + 1 else 0)"

definition tracks :: "wait_state \<Rightarrow> bool" where
  "tracks s \<longleftrightarrow>
     lastHTMLSize s = (case history s of [] \<Rightarrow> 0 | v # _ \<Rightarrow> v) \<and>
     stableCount s = matches (history s)"




section \<open>Tab lifecycle coordinator: shared state and busy-wait guard (tabService.js)\<close>

text \<open>
  The values stored in the map \<open>tabProcessingStates\<close>: the six constants of the object
  \<open>TabProcessingState\<close>, and the string \<open>batch_processing\<close> that \<open>handleBatchCommand\<close>
  stores for the tab a batch runs on.
\<close>

datatype TabProcessingState =
    IDLE | NAVIGATION_PENDING | STABILIZING | ATTACHING | CAPTURING | COMPLETED
  | BATCH_PROCESSING

text \<open>
  The module-level variables of the tab service that the properties read.  \<open>openedTabIds\<close>
  is a \<open>Set\<close>, kept as the list of its elements in insertion order.
\<close>

record tab_service =
  openedTabIds :: "tab_id list"
  activeTabId :: "tab_id option"
  tabProcessingStates :: "tab_id \<rightharpoonup> TabProcessingState"

definition getActiveTabId :: "tab_service \<Rightarrow> tab_id option" where
  "getActiveTabId ts =
     (case activeTabId ts of
        None \<Rightarrow> None
      | Some t \<Rightarrow> if t \<noteq> 0 \<and> t \<in> set (openedTabIds ts) then Some t else None)"

definition setActiveTabId :: "tab_id \<Rightarrow> tab_service \<Rightarrow> tab_service" where
  "setActiveTabId tabId ts =
     (if tabId \<noteq> 0 \<and> tabId \<in> set (openedTabIds ts) then ts\<lparr>activeTabId := Some tabId\<rparr> else ts)"

definition set_state :: "tab_id \<Rightarrow> TabProcessingState \<Rightarrow> tab_service \<Rightarrow> tab_service" where
  "set_state tabId st ts = ts\<lparr>tabProcessingStates := (tabProcessingStates ts)(tabId \<mapsto> st)\<rparr>"

definition isTabProcessing :: "tab_id \<Rightarrow> tab_service \<Rightarrow> bool" where
  "isTabProcessing tabId ts =
     (let currentState = (case tabProcessingStates ts tabId of None \<Rightarrow> IDLE | Some st \<Rightarrow> st)
      in currentState \<noteq> IDLE \<and> currentState \<noteq> COMPLETED)"

text \<open>
  \<open>waitForTabProcessingComplete\<close> polls.  Between two polls other commands run and may
  change the map, so each poll reads what the environment supplies: the map
  \<open>tabProcessingStates\<close> at that moment, whether \<open>chrome.tabs.get\<close> finds the tab, and by
  how many milliseconds the 500 ms timer that schedules the next poll is late.
\<close>

record poll =
  poll_states :: "tab_id \<rightharpoonup> TabProcessingState"
  poll_tab_exists :: bool
  poll_delay :: nat











text \<open>
  The time the supplied polls take, which is the time at which the poll after them runs.
  The polls \<open>ps\<close> keep the wait going when each of them finds the tab busy and present,
  the last of them no later than 10 s after the start.
\<close>

definition poll_time :: "poll list \<Rightarrow> int" where
  "poll_time ps = (\<Sum>p\<leftarrow>ps. 500 + int (poll_delay p))"


text \<open>A tab service with one tab in a given state, and polls for the examples.\<close>

definition one_tab :: "TabProcessingState \<Rightarrow> tab_service" where
  "one_tab st = \<lparr>openedTabIds = [1], activeTabId = Some 1, tabProcessingStates = [1 \<mapsto> st]\<rparr>"



section \<open>Click primitive (interactionService.js)\<close>

text \<open>
  A JavaScript string is a sequence of UTF-16 code units: a list of numbers, each below
  65536 (the definitions do not depend on that bound).  \<open>utf16\<close> writes a string of the
  first 256 code points, whose code units are their character codes.
\<close>

type_synonym code_unit = nat

type_synonym js_string = "code_unit list"

definition utf16 :: "string \<Rightarrow> js_string" where
  "utf16 s = map of_char s"

text \<open>
  \<open>coordinateString.split(",").map(Number)\<close>.  \<open>split_comma\<close> cuts at every comma (code
  unit 44) and always yields at least one part.  \<open>Number\<close> applied to a string gives
  \<open>NaN\<close> unless the string, with white space and line terminators trimmed at both ends,
  is empty (the number 0) or a numeric literal of the language: an optionally signed
  decimal literal (digits with an optional fraction and exponent, or \<open>Infinity\<close>), or an
  unsigned hexadecimal, octal or binary integer literal.  \<open>numeric_string\<close> decides
  that; the numeric value itself is only handed on to the browser and stays the text of
  the part.

  The characters that \<open>Number\<close> trims are those of the language's \<open>WhiteSpace\<close> and
  \<open>LineTerminator\<close>: tab, line feed, vertical tab, form feed, carriage return, space,
  no-break space (U+00A0), U+1680, U+2000 to U+200A, the line and paragraph separators
  U+2028 and U+2029, U+202F, U+205F, U+3000 and the byte order mark U+FEFF.
\<close>

fun split_comma :: "js_string \<Rightarrow> js_string list" where
  "split_comma [] = [[]]"
| "split_comma (c # cs) =
     (if c = 44 then [] # split_comma cs
      else case split_comma cs of
             [] \<Rightarrow> [[c]]
           | part # parts \<Rightarrow> (c # part) # parts)"

definition is_space :: "code_unit \<Rightarrow> bool" where
  "is_space c \<longleftrightarrow>
     c \<in> set [0x09, 0x0A, 0x0B, 0x0C, 0x0D, 0x20, 0xA0, 0x1680, 0x2028, 0x2029, 0x202F,
              0x205F, 0x3000, 0xFEFF]
     \<or> (0x2000 \<le> c \<and> c \<le> 0x200A)"

definition trim :: "js_string \<Rightarrow> js_string" where
  "trim s = rev (dropWhile is_space (rev (dropWhile is_space s)))"

definition is_digit :: "code_unit \<Rightarrow> bool" where
  "is_digit c \<longleftrightarrow> c \<in> set (utf16 ''0123456789'')"

definition all_in :: "string \<Rightarrow> js_string \<Rightarrow> bool" where
  "all_in alphabet s \<longleftrightarrow> s \<noteq> [] \<and> list_all (\<lambda>c. c \<in> set (utf16 alphabet)) s"

definition strip_sign :: "js_string \<Rightarrow> js_string" where
  "strip_sign s =
     (case s of
        [] \<Rightarrow> []
      | c # rest \<Rightarrow> if c \<in> set (utf16 ''+-'') then rest else s)"

definition exponent_part :: "js_string \<Rightarrow> bool" where
  "exponent_part s \<longleftrightarrow>
     (case s of
        [] \<Rightarrow> True
      | c # rest \<Rightarrow> c \<in> set (utf16 ''eE'') \<and> all_in ''0123456789'' (strip_sign rest))"

definition unsigned_decimal :: "js_string \<Rightarrow> bool" where
  "unsigned_decimal s \<longleftrightarrow>
     s = utf16 ''Infinity'' \<or>
     (let whole = takeWhile is_digit s; rest = dropWhile is_digit s
      in case rest of
           [] \<Rightarrow> whole \<noteq> []
         | c # after \<Rightarrow>
             if c \<in> set (utf16 ''.'')
             then (whole \<noteq> [] \<or> takeWhile is_digit after \<noteq> [])
                  \<and> exponent_part (dropWhile is_digit after)
             else whole \<noteq> [] \<and> exponent_part rest)"

definition radix_literal :: "js_string \<Rightarrow> bool" where
  "radix_literal s \<longleftrightarrow>
     (case s of
        z # x # digits \<Rightarrow>
          z \<in> set (utf16 ''0'') \<and>
          ((x \<in> set (utf16 ''xX'') \<and> all_in ''0123456789abcdefABCDEF'' digits)
           \<or> (x \<in> set (utf16 ''oO'') \<and> all_in ''01234567'' digits)
           \<or> (x \<in> set (utf16 ''bB'') \<and> all_in ''01'' digits))
      | _ \<Rightarrow> False)"

definition numeric_string :: "js_string \<Rightarrow> bool" where
  "numeric_string s \<longleftrightarrow>
     (let t = trim s in t = [] \<or> radix_literal t \<or> unsigned_decimal (strip_sign t))"

text \<open>
  What \<open>performClick\<close> throws.  The source builds \<open>Error\<close> objects with messages; the
  constructor keeps what the message is built from.  The steps it takes towards the
  browser are logged in order: the click animation, the 300 ms pause after a successful
  animation, and the two \<open>Input.dispatchMouseEvent\<close> commands.
\<close>

datatype click_error =
    NoActiveTab
  | InvalidCoordinateFormat js_string
  | DebuggerNotAttached tab_id
  | ClickFailed string





section \<open>Tab lifecycle coordinator: the race of waitForTabOperationComplete\<close>

text \<open>
  A timer variable of the closure together with the timer it names: never set, armed,
  fired (the variable still holds the id), or cleared and set to \<open>null\<close>.
  \<open>clear_timer\<close> is \<open>if (t) { clearTimeout(t); t = null }\<close>, \<open>cancel_timer\<close> is
  \<open>if (t) clearTimeout(t)\<close>.
\<close>

datatype timer = Unset | Armed | Fired | Cleared

definition clear_timer :: "timer \<Rightarrow> timer" where
  "clear_timer t = (if t = Armed \<or> t = Fired then Cleared else t)"

definition cancel_timer :: "timer \<Rightarrow> timer" where
  "cancel_timer t = (if t = Armed then Fired else t)"

datatype operation_phase = Running | Returned | Threw

text \<open>
  A call of one of the two helpers that hand a tab to the shared completion stages
  (\<open>processTabCore\<close>): \<open>processNewTab(newTabId, originalTabId, \<dots>)\<close> or
  \<open>processActiveTab(tabId, \<dots>)\<close>, whose tab is \<open>null\<close> when \<open>getActiveTabId()\<close> finds none.
  Each call ends by calling \<open>resolve\<close> with the result or \<open>reject\<close> with the error of
  the stages; the \<open>catch\<close> of line 869 calls \<open>reject\<close> with the error of the operation.
\<close>

datatype processing_call = ProcessNewTab tab_id tab_id | ProcessActiveTab "tab_id option"

datatype 'e settlement =
    ResolvedFrom processing_call
  | RejectedFrom processing_call
  | RejectedByOperation 'e

text \<open>
  One invocation of \<open>waitForTabOperationComplete\<close>: the tab service, the variables of
  the closure, whether the handler is registered, the \<open>chrome.tabs.get\<close> lookups the
  handler has started and that have not answered, and two logs, the calls of the
  helpers and the calls of \<open>resolve\<close> and \<open>reject\<close>.  \<open>finished\<close> lists the positions in
  \<open>processing\<close> of the calls whose stages have ended.
\<close>

record 'e race =
  tabs :: tab_service
  initialActiveTabId :: tab_id
  tabsBeforeOperation :: "tab_id list"
  newTabDetected :: bool
  navigationHandled :: bool
  fastDetectionTimer :: timer
  longWaitTimer :: timer
  listening :: bool
  lookups :: "tab_id list"
  operationFn :: operation_phase
  processing :: "processing_call list"
  finished :: "nat list"
  settlements :: "'e settlement list"

text \<open>
  \<open>waitForTabOperationComplete\<close> up to the call of the operation (lines 727 to 743
  and 804 to 810); what follows is driven by the callbacks below.
  The busy-wait guard is an \<open>await\<close>: when the tab is busy other code runs before the
  function goes on, and \<open>after_wait\<close> is the tab service it finds then.
\<close>

datatype start_error = NoTabAvailable

definition waitForTabOperationComplete :: "tab_service \<Rightarrow> tab_service \<Rightarrow> start_error + 'e race" where
  "waitForTabOperationComplete ts after_wait =
     (case getActiveTabId ts of
        None \<Rightarrow> Inl NoTabAvailable
      | Some t \<Rightarrow>
          let ts1 = (if isTabProcessing t ts then after_wait else ts)
          in Inr \<lparr>tabs = set_state t NAVIGATION_PENDING ts1,
                  initialActiveTabId = t,
                  tabsBeforeOperation = openedTabIds ts1,
                  newTabDetected = False, navigationHandled = False,
                  fastDetectionTimer = Unset, longWaitTimer = Unset,
                  listening = True, lookups = [], operationFn = Running,
                  processing = [], finished = [], settlements = []\<rparr>)"

text \<open>
  The callbacks.  A tab activation first runs the listener of \<open>initTabListeners\<close>
  (lines 376 to 401; \<open>waitingForNewTab\<close> is never assigned and stays \<open>false\<close>), which
  makes a tracked tab the active one, and then the closure \<open>tabActivatedHandler\<close>
  (lines 754 to 788) if it is registered.
\<close>

definition onActivated_listener :: "tab_id \<Rightarrow> tab_service \<Rightarrow> tab_service" where
  "onActivated_listener tabId ts =
     (if tabId \<in> set (openedTabIds ts) then setActiveTabId tabId ts else ts)"

definition tabActivatedHandler :: "tab_id \<Rightarrow> 'e race \<Rightarrow> 'e race" where
  "tabActivatedHandler tabId r =
     (if navigationHandled r then r
      else if tabId \<in> set (tabsBeforeOperation r) then r
      else r\<lparr>newTabDetected := True,
              fastDetectionTimer := clear_timer (fastDetectionTimer r),
              tabs := (if tabId \<notin> set (openedTabIds (tabs r))
                       then setActiveTabId tabId
                              ((tabs r)\<lparr>openedTabIds := openedTabIds (tabs r) @ [tabId]\<rparr>)
                       else tabs r),
              lookups := lookups r @ [tabId]\<rparr>)"

definition on_tabActivated :: "tab_id \<Rightarrow> 'e race \<Rightarrow> 'e race" where
  "on_tabActivated tabId r =
     (let r0 = r\<lparr>tabs := onActivated_listener tabId (tabs r)\<rparr>
      in if listening r0 then tabActivatedHandler tabId r0 else r0)"

text \<open>
  The \<open>then\<close> of the lookup (lines 766 to 782); \<open>opener\<close> is \<open>tab.openerTabId\<close>, falsy
  when absent or 0.
\<close>

definition on_lookupAnswered :: "tab_id \<Rightarrow> tab_id option \<Rightarrow> 'e race \<Rightarrow> 'e race" where
  "on_lookupAnswered tabId opener r =
     (if tabId \<notin> set (lookups r) then r
      else
        let r0 = r\<lparr>lookups := remove1 tabId (lookups r)\<rparr>
        in if (opener = Some (initialActiveTabId r0) \<or> opener = None \<or> opener = Some 0)
              \<and> \<not> navigationHandled r0
           then r0\<lparr>navigationHandled := True, listening := False,
                   longWaitTimer := clear_timer (longWaitTimer r0),
                   processing := processing r0 @ [ProcessNewTab tabId (initialActiveTabId r0)]\<rparr>
           else r0)"

definition on_lookupFailed :: "tab_id \<Rightarrow> 'e race \<Rightarrow> 'e race" where
  "on_lookupFailed tabId r =
     (if tabId \<notin> set (lookups r) then r else r\<lparr>lookups := remove1 tabId (lookups r)\<rparr>)"

text \<open>The operation returns (lines 812 to 868), or throws (lines 869 to 884).\<close>

definition on_operationReturned :: "'e race \<Rightarrow> 'e race" where
  "on_operationReturned r =
     (if operationFn r \<noteq> Running then r
      else r\<lparr>operationFn := Returned, fastDetectionTimer := Armed, longWaitTimer := Armed\<rparr>)"

definition on_operationThrew :: "'e \<Rightarrow> 'e race \<Rightarrow> 'e race" where
  "on_operationThrew operationError r =
     (if operationFn r \<noteq> Running then r
      else r\<lparr>operationFn := Threw, listening := False,
              fastDetectionTimer := cancel_timer (fastDetectionTimer r),
              longWaitTimer := cancel_timer (longWaitTimer r),
              tabs := set_state (initialActiveTabId r) IDLE (tabs r),
              settlements := settlements r @ [RejectedByOperation operationError]\<rparr>)"

text \<open>The fast timer, 500 ms (lines 817 to 842), and the long one, 5 s (lines 845 to 868).\<close>

definition on_fastTimer :: "'e race \<Rightarrow> 'e race" where
  "on_fastTimer r =
     (if fastDetectionTimer r \<noteq> Armed then r
      else
        let r0 = r\<lparr>fastDetectionTimer := Fired\<rparr>
        in if newTabDetected r0 then r0
           else
             let r1 = r0\<lparr>listening := False\<rparr>
             in if \<not> navigationHandled r1
                then r1\<lparr>navigationHandled := True,
                        longWaitTimer := clear_timer (longWaitTimer r1),
                        processing := processing r1
                                      @ [ProcessActiveTab (Some (initialActiveTabId r1))]\<rparr>
                else r1)"

definition on_longTimer :: "'e race \<Rightarrow> 'e race" where
  "on_longTimer r =
     (if longWaitTimer r \<noteq> Armed then r
      else
        let r0 = r\<lparr>longWaitTimer := Fired\<rparr>
        in if navigationHandled r0 then r0
           else r0\<lparr>listening := False,
                   fastDetectionTimer := clear_timer (fastDetectionTimer r0),
                   navigationHandled := True,
                   processing := processing r0
                     @ [ProcessActiveTab (if newTabDetected r0 then getActiveTabId (tabs r0)
                                          else Some (initialActiveTabId r0))]\<rparr>)"

text \<open>
  The stages of the call at position \<open>i\<close> end, well or not: \<open>processTabCore\<close> leaves the
  tab \<open>completed\<close> or \<open>idle\<close>, and the helper calls \<open>resolve\<close> or \<open>reject\<close>.  The tab
  \<open>null\<close> is the key 0.
\<close>

definition processed_tab :: "processing_call \<Rightarrow> tab_id" where
  "processed_tab c =
     (case c of
        ProcessNewTab newTabId originalTabId \<Rightarrow> newTabId
      | ProcessActiveTab None \<Rightarrow> 0
      | ProcessActiveTab (Some t) \<Rightarrow> t)"

definition on_processingEnded :: "nat \<Rightarrow> bool \<Rightarrow> 'e race \<Rightarrow> 'e race" where
  "on_processingEnded i ok r =
     (if i < length (processing r) \<and> i \<notin> set (finished r)
      then r\<lparr>finished := finished r @ [i],
              tabs := set_state (processed_tab (processing r ! i))
                        (if ok then COMPLETED else IDLE) (tabs r),
              settlements := settlements r
                @ [if ok then ResolvedFrom (processing r ! i)
                   else RejectedFrom (processing r ! i)]\<rparr>
      else r)"

text \<open>
  The events of one invocation.  \<open>OtherCode\<close> is any other code of the extension running
  in between and leaving the tab service in the given state.
\<close>

datatype 'e race_event =
    TabActivated tab_id
  | LookupAnswered tab_id "tab_id option"
  | LookupFailed tab_id
  | OperationReturned
  | OperationThrew 'e
  | FastTimerFired
  | LongTimerFired
  | ProcessingEnded nat bool
  | OtherCode tab_service

fun race_step :: "'e race_event \<Rightarrow> 'e race \<Rightarrow> 'e race" where
  "race_step (TabActivated tabId) r = on_tabActivated tabId r"
| "race_step (LookupAnswered tabId opener) r = on_lookupAnswered tabId opener r"
| "race_step (LookupFailed tabId) r = on_lookupFailed tabId r"
| "race_step OperationReturned r = on_operationReturned r"
| "race_step (OperationThrew e) r = on_operationThrew e r"
| "race_step FastTimerFired r = on_fastTimer r"
| "race_step LongTimerFired r = on_longTimer r"
| "race_step (ProcessingEnded i ok) r = on_processingEnded i ok r"
| "race_step (OtherCode ts) r = r\<lparr>tabs := ts\<rparr>"

definition race_run :: "'e race_event list \<Rightarrow> 'e race \<Rightarrow> 'e race" where
  "race_run evs r = fold race_step evs r"







definition bad_coordinate :: "js_string \<Rightarrow> bool" where
  "bad_coordinate s \<longleftrightarrow>
     (case split_comma s of
        cssX # cssY # _ \<Rightarrow> \<not> numeric_string cssX \<or> \<not> numeric_string cssY
      | _ \<Rightarrow> True)"




definition started_on_tab_1 :: "click_error race" where
  "started_on_tab_1 =
     \<lparr>tabs = one_tab NAVIGATION_PENDING, initialActiveTabId = 1, tabsBeforeOperation = [1],
      newTabDetected = False, navigationHandled = False,
      fastDetectionTimer = Unset, longWaitTimer = Unset,
      listening = True, lookups = [], operationFn = Running,
      processing = [], finished = [], settlements = []\<rparr>"


text \<open>
  A click that opens tab 2 and then fails: the new tab is handed over and its stages end
  well before the operation throws.
\<close>

definition new_tab_before_throw :: "click_error race_event list" where
  "new_tab_before_throw = [TabActivated 2, LookupAnswered 2 (Some 1), ProcessingEnded 0 True]"

section \<open>Batch executor (batchCommandHandler.js)\<close>

text \<open>
  One element of \<open>message.operations\<close>: its \<open>name\<close> and its \<open>parameters\<close> object, whose
  fields are absent or present; a string parameter counts as given when it is present
  and not empty, as in the tests \<open>!parameters.coordinate\<close> of the source.
\<close>

record parameters =
  par_coordinate :: "string option"
  par_text :: "string option"
  par_key :: "string option"
  par_combination :: "string option"
  par_direction :: "string option"
  par_selector :: "string option"
  par_seconds :: "nat option"

record operation =
  op_name :: string
  op_parameters :: "parameters option"

definition given :: "parameters option \<Rightarrow> (parameters \<Rightarrow> string option) \<Rightarrow> string option" where
  "given ps field =
     (case ps of
        None \<Rightarrow> None
      | Some p \<Rightarrow> (case field p of None \<Rightarrow> None | Some v \<Rightarrow> if v = [] then None else Some v))"

text \<open>
  What a step does, as the closure that \<open>executeOperation\<close> passes on, and what a step
  returns: the fields of the result object that the batch executor reads, and the rest
  of it (\<open>status\<close>, \<open>command\<close>, \<open>currentUrl\<close>).
\<close>

datatype action =
    ClickAt string
  | TypeText string
  | PressKey string
  | PressCombination string
  | ScrollTo string "string option"
  | WaitFor nat

record step_result =
  res_status :: string
  res_command :: string
  res_currentUrl :: "string option"
  res_newTabOpened :: bool
  res_newTabId :: "tab_id option"

text \<open>
  Everything outside the batch handler is a parameter.  The world is the tab service
  and the browser, of any type.  \<open>navigating_path\<close> is \<open>waitForTabOperationComplete\<close> in
  batch mode and \<open>simple_path\<close> is \<open>performSimpleOperation\<close> in batch mode, each given the
  operation type and the action; \<open>while_sleeping\<close> is what other code does to the world
  during a pause of the given length; \<open>capture\<close> is \<open>captureVisibleTabPromise\<close>, which
  catches every error and returns \<open>null\<close> instead; \<open>tab_url\<close> is
  \<open>(await chrome.tabs.get(tabId)).url\<close>, which may reject.
\<close>

record 'b world =
  service :: tab_service
  browser :: 'b

record 'b paths =
  navigating_path :: "string \<Rightarrow> action \<Rightarrow> 'b world \<Rightarrow> (string + step_result) \<times> 'b world"
  simple_path :: "string \<Rightarrow> action \<Rightarrow> 'b world \<Rightarrow> (string + step_result) \<times> 'b world"
  while_sleeping :: "nat \<Rightarrow> 'b world \<Rightarrow> 'b world"
  capture :: "tab_id \<Rightarrow> 'b world \<Rightarrow> string option"
  tab_url :: "tab_id \<Rightarrow> 'b world \<Rightarrow> string host_result"

text \<open>\<open>(parameters?.seconds || 1) * 1000 || intervalMs\<close>.\<close>

definition waitTime :: "parameters option \<Rightarrow> nat \<Rightarrow> nat" where
  "waitTime ps intervalMs =
     (let seconds = (case ps of
                       None \<Rightarrow> 1
                     | Some p \<Rightarrow> (case par_seconds p of
                                    None \<Rightarrow> 1
                                  | Some n \<Rightarrow> if n = 0 then 1 else n))
      in if seconds * 1000 = 0 then intervalMs else seconds * 1000)"

definition executeOperation ::
  "'b paths \<Rightarrow> operation \<Rightarrow> nat \<Rightarrow> 'b world \<Rightarrow> (string + step_result) \<times> 'b world" where
  "executeOperation P operation intervalMs w =
     (let name = op_name operation; ps = op_parameters operation
      in if name = ''click''
         then (case given ps par_coordinate of
                 None \<Rightarrow> (Inl ''Click operation requires 'coordinate' parameter'', w)
               | Some c \<Rightarrow> navigating_path P ''click'' (ClickAt c) w)
         else if name = ''type''
         then (case given ps par_text of
                 None \<Rightarrow> (Inl ''Type operation requires 'text' parameter'', w)
               | Some t \<Rightarrow> simple_path P ''type'' (TypeText t) w)
         else if name = ''press_key''
         then (case given ps par_key of
                 None \<Rightarrow> (Inl ''Press key operation requires 'key' parameter'', w)
               | Some k \<Rightarrow> navigating_path P ''pressKey'' (PressKey k) w)
         else if name = ''press_key_combo''
         then (case given ps par_combination of
                 None \<Rightarrow> (Inl ''Key combination operation requires 'combination' parameter'', w)
               | Some c \<Rightarrow> simple_path P ''pressKeyCombination'' (PressCombination c) w)
         else if name = ''scroll''
         then (case given ps par_direction of
                 None \<Rightarrow> (Inl ''Scroll operation requires 'direction' parameter'', w)
               | Some d \<Rightarrow>
                   simple_path P ''scroll''
                     (ScrollTo d (case ps of None \<Rightarrow> None | Some p \<Rightarrow> par_selector p)) w)
         else if name = ''wait''
         then simple_path P ''wait'' (WaitFor (waitTime ps intervalMs)) w
         else (Inl (''Unsupported operation: '' @ name), w))"

text \<open>
  An element of the array \<open>results\<close>: the operation with \<open>status: "success"\<close> and the
  result, or with \<open>status: "error"\<close> and the message of the error.
\<close>

datatype batch_entry = StepSucceeded operation step_result | StepFailed operation string

definition is_failed :: "batch_entry \<Rightarrow> bool" where
  "is_failed e = (case e of StepFailed operation err \<Rightarrow> True | _ \<Rightarrow> False)"

definition entry_operation :: "batch_entry \<Rightarrow> operation" where
  "entry_operation e =
     (case e of StepSucceeded operation res \<Rightarrow> operation | StepFailed operation err \<Rightarrow> operation)"

text \<open>
  The loop of lines 64 to 98.  Besides \<open>currentTabId\<close> and \<open>results\<close> it carries the
  world and a log of what it did: each call of \<open>executeOperation\<close> with the world before
  and after it, and each pause with the world after it.
\<close>

datatype 'b batch_event =
    Executed operation "'b world" "'b world"
  | Slept nat "'b world"

record 'b batch_run =
  currentTabId :: tab_id
  results :: "batch_entry list"
  world :: "'b world"
  trace :: "'b batch_event list"

definition switched_tab :: "step_result \<Rightarrow> tab_id \<Rightarrow> tab_id" where
  "switched_tab res current =
     (case res_newTabId res of
        None \<Rightarrow> current
      | Some n \<Rightarrow> if res_newTabOpened res \<and> n \<noteq> 0 then n else current)"

fun batchLoop :: "'b paths \<Rightarrow> nat \<Rightarrow> operation list \<Rightarrow> 'b batch_run \<Rightarrow> 'b batch_run" where
  "batchLoop P intervalMs [] run = run"
| "batchLoop P intervalMs (operation # rest) run =
     (case executeOperation P operation intervalMs (world run) of
        (Inr res, w) \<Rightarrow>
          (let run1 = run\<lparr>currentTabId := switched_tab res (currentTabId run),
                          results := results run @ [StepSucceeded operation res],
                          world := w,
                          trace := trace run @ [Executed operation (world run) w]\<rparr>
           in if rest = [] then run1
              else batchLoop P intervalMs rest
                     (run1\<lparr>world := while_sleeping P intervalMs w,
                           trace := trace run1 @ [Slept intervalMs (while_sleeping P intervalMs w)]\<rparr>))
      | (Inl err, w) \<Rightarrow>
          run\<lparr>results := results run @ [StepFailed operation err],
              world := w,
              trace := trace run @ [Executed operation (world run) w]\<rparr>)"

text \<open>The batch message and the response passed to \<open>sendMessageToServer\<close>.\<close>

record batch_message =
  bm_requestId :: string
  bm_operations :: "operation list option"
  bm_interval_ms :: "nat option"

datatype batch_text =
    NoOperationsProvided
  | NoTabForBatch
  | TabGoneAfterBatch
  | ExecutedOperations nat
  | HostError string

record batch_response =
  br_status :: string
  br_command :: string
  br_requestId :: string
  br_message :: batch_text
  br_operations :: "batch_entry list option"
  br_screenshot :: "string option"
  br_currentUrl :: "string option"
  br_tabId :: "tab_id option"

definition error_response :: "string \<Rightarrow> batch_text \<Rightarrow> batch_response" where
  "error_response requestId msg =
     \<lparr>br_status = ''error'', br_command = ''batch'', br_requestId = requestId,
      br_message = msg, br_operations = None, br_screenshot = None, br_currentUrl = None,
      br_tabId = None\<rparr>"

definition delete_state :: "tab_id \<Rightarrow> 'b world \<Rightarrow> 'b world" where
  "delete_state tabId w =
     w\<lparr>service := (service w)\<lparr>tabProcessingStates := (tabProcessingStates (service w))(tabId := None)\<rparr>\<rparr>"

text \<open>
  The state in which the loop starts, and \<open>handleBatchCommand\<close>.  It returns the response
  together with the run as the loop left it, the world of the run being the one the
  handler leaves behind.
\<close>

definition start_run :: "tab_id \<Rightarrow> 'b world \<Rightarrow> 'b batch_run" where
  "start_run targetTabId w =
     \<lparr>currentTabId = targetTabId, results = [],
      world = w\<lparr>service := set_state targetTabId BATCH_PROCESSING (service w)\<rparr>,
      trace = []\<rparr>"

definition interval_of :: "batch_message \<Rightarrow> nat" where
  "interval_of m = (case bm_interval_ms m of None \<Rightarrow> 100 | Some n \<Rightarrow> if n = 0 then 100 else n)"

definition operations_of :: "batch_message \<Rightarrow> operation list" where
  "operations_of m = (case bm_operations m of None \<Rightarrow> [] | Some ops \<Rightarrow> ops)"

definition finish_batch ::
  "'b paths \<Rightarrow> batch_message \<Rightarrow> tab_id \<Rightarrow> 'b batch_run \<Rightarrow> batch_response \<times> 'b batch_run" where
  "finish_batch P m targetTabId run =
     (let cur = currentTabId run;
          w1 = delete_state targetTabId (world run);
          w2 = (if cur \<noteq> targetTabId then delete_state cur w1 else w1);
          done = run\<lparr>world := w2\<rparr>
      in if cur \<notin> set (openedTabIds (service w2))
         then (\<lparr>br_status = ''success'', br_command = ''batch'', br_requestId = bm_requestId m,
                 br_message = TabGoneAfterBatch, br_operations = Some (results run),
                 br_screenshot = None, br_currentUrl = None, br_tabId = None\<rparr>, done)
         else
           (case tab_url P cur w2 of
              Inl err \<Rightarrow> (error_response (bm_requestId m) (HostError err), done)
            | Inr url \<Rightarrow>
                (\<lparr>br_status = ''success'', br_command = ''batch'', br_requestId = bm_requestId m,
                  br_message = ExecutedOperations (length (operations_of m)),
                  br_operations = Some (results run),
                  br_screenshot = capture P cur w2, br_currentUrl = Some url,
                  br_tabId = Some cur\<rparr>, done)))"

definition handleBatchCommand ::
  "'b paths \<Rightarrow> batch_message \<Rightarrow> 'b world \<Rightarrow> batch_response \<times> 'b batch_run" where
  "handleBatchCommand P m w =
     (if operations_of m = []
      then (error_response (bm_requestId m) NoOperationsProvided,
            \<lparr>currentTabId = 0, results = [], world = w, trace = []\<rparr>)
      else
        case getActiveTabId (service w) of
          None \<Rightarrow> (error_response (bm_requestId m) NoTabForBatch,
                    \<lparr>currentTabId = 0, results = [], world = w, trace = []\<rparr>)
        | Some targetTabId \<Rightarrow>
            finish_batch P m targetTabId
              (batchLoop P (interval_of m) (operations_of m) (start_run targetTabId w)))"


fun executed :: "'b batch_event list \<Rightarrow> operation list" where
  "executed [] = []"
| "executed (Executed operation before after # evs) = operation # executed evs"
| "executed (Slept ms after # evs) = executed evs"

text \<open>
  The entries a fail-fast run over the operations can produce: one entry per operation
  in order, ending with the first failure, or one for every operation.
\<close>

fun fail_fast :: "operation list \<Rightarrow> batch_entry list \<Rightarrow> bool" where
  "fail_fast [] entries \<longleftrightarrow> entries = []"
| "fail_fast (operation # rest) [] \<longleftrightarrow> False"
| "fail_fast (operation # rest) (e # entries) \<longleftrightarrow>
     entry_operation e = operation \<and> (if is_failed e then entries = [] else fail_fast rest entries)"

text \<open>
  An example: the browser is the list of the actions done to it, every dispatched step
  succeeds, nothing else happens during pauses, and the final tab can be looked up.
\<close>

definition done_step :: "string \<Rightarrow> string \<Rightarrow> step_result" where
  "done_step st cmd =
     \<lparr>res_status = st, res_command = cmd, res_currentUrl = Some ''https://example.com/'',
      res_newTabOpened = False, res_newTabId = None\<rparr>"

definition recording_paths :: "(action list) paths" where
  "recording_paths =
     \<lparr>navigating_path = (\<lambda>cmd act w. (Inr (done_step ''success'' cmd), w\<lparr>browser := browser w @ [act]\<rparr>)),
      simple_path = (\<lambda>cmd act w. (Inr (done_step ''ack'' cmd), w\<lparr>browser := browser w @ [act]\<rparr>)),
      while_sleeping = (\<lambda>ms w. w),
      capture = (\<lambda>t w. Some ''data:image/jpeg;base64,AAAA''),
      tab_url = (\<lambda>t w. Inr ''https://example.com/'')\<rparr>"

definition no_parameters :: parameters where
  "no_parameters =
     \<lparr>par_coordinate = None, par_text = None, par_key = None, par_combination = None,
      par_direction = None, par_selector = None, par_seconds = None\<rparr>"

definition click_op :: operation where
  "click_op = \<lparr>op_name = ''click'',
               op_parameters = Some (no_parameters\<lparr>par_coordinate := Some ''500,300''\<rparr>)\<rparr>"

definition type_op :: operation where
  "type_op = \<lparr>op_name = ''type'', op_parameters = Some (no_parameters\<lparr>par_text := Some ''hi''\<rparr>)\<rparr>"

definition bad_op :: operation where
  "bad_op = \<lparr>op_name = ''badOp'', op_parameters = None\<rparr>"

definition scenario_D :: batch_message where
  "scenario_D = \<lparr>bm_requestId = ''req-4'',
                 bm_operations = Some [click_op, type_op, bad_op, click_op],
                 bm_interval_ms = None\<rparr>"

definition fresh_world :: "(action list) world" where
  "fresh_world = \<lparr>service = one_tab COMPLETED, browser = []\<rparr>"

definition scenario_D_entries :: "batch_entry list" where
  "scenario_D_entries =
     [StepSucceeded click_op (done_step ''success'' ''click''),
      StepSucceeded type_op (done_step ''ack'' ''type''),
      StepFailed bad_op ''Unsupported operation: badOp'']"

definition scenario_D_result :: "batch_response \<times> (action list) batch_run" where
  "scenario_D_result = handleBatchCommand recording_paths scenario_D fresh_world"



section \<open>Proofs: instrumentation session manager\<close>

lemma safelyDetach_keeps_only_same_tab:
  "safelyDetachPreviousDebugger tabId host dt = Some t \<Longrightarrow> t = tabId \<and> dt = Some tabId"
  by (auto simp: safelyDetachPreviousDebugger_def split: option.splits if_splits sum.splits)

lemma attach_catch_clears: "snd (attach_catch tabId dt) \<noteq> Some tabId"
  by (simp add: attach_catch_def)

text \<open>
  Every failing path but one leaves \<open>debugTarget\<close> off the requested tab: when
  \<open>attachDebugger\<close> answers \<open>false\<close> with the reference still on that tab, all four
  commands succeeded and the verification read the tab as not attached.
\<close>

lemma attachDebugger_residual_only_after_verification:
  assumes "attachDebugger tabId host dt = (False, Some tabId)" and "tabId \<noteq> 0"
  shows "attach_call host \<noteq> Inl e1 \<and> page_enable host \<noteq> Inl e2
         \<and> runtime_enable host \<noteq> Inl e3 \<and> dom_enable host \<noteq> Inl e4
         \<and> \<not> isDebuggerAttached tabId (targets_verify host)"
  using assms attach_catch_clears[of tabId "safelyDetachPreviousDebugger tabId host dt"]
  by (auto simp: attachDebugger_def Let_def split: if_splits sum.splits)

text \<open>
  Claim C6.  Every failing call of \<open>attachDebugger\<close> returns \<open>false\<close> and leaves
  \<open>debugTarget\<close> off the target.  The code breaks this on the verification path: with
  \<open>debugTarget = null\<close>, tab 7, every attach command succeeding and the re-verification
  reporting the tab as not attached, the call returns \<open>false\<close> and \<open>debugTarget\<close> is
  \<open>{tabId: 7}\<close>.
\<close>

theorem attachDebugger_verification_failure_keeps_debugTarget:
  "attachDebugger 7 silent_attach_host None = (False, Some 7)"
  by (simp add: attachDebugger_def silent_attach_host_def isDebuggerAttached_def
      safelyDetachPreviousDebugger_def)

section \<open>Proofs: correlated channel\<close>

declare decimal.simps [simp del]

lemma digit_char_inj: "a < 10 \<Longrightarrow> b < 10 \<Longrightarrow> digit_char a = digit_char b \<Longrightarrow> a = b"
proof -
  assume a: "a < 10" and b: "b < 10" and e: "digit_char a = digit_char b"
  have d: "distinct ''0123456789''" by simp
  have "a < length ''0123456789''" "b < length ''0123456789''" using a b by simp_all
  with d e show "a = b" unfolding digit_char_def by (simp only: nth_eq_iff_index_eq)
qed

lemma decimal_small: "n < 10 \<Longrightarrow> decimal n = [digit_char n]"
  by (subst decimal.simps) simp

lemma decimal_large: "\<not> n < 10 \<Longrightarrow> decimal n = decimal (n div 10) @ [digit_char (n mod 10)]"
  by (subst decimal.simps) simp

lemma decimal_nonempty: "decimal n \<noteq> []"
  by (cases "n < 10") (simp_all add: decimal_small decimal_large)

lemma decimal_inj: "decimal a = decimal b \<Longrightarrow> a = b"
proof (induction a arbitrary: b rule: decimal.induct)
  case (1 n)
  show ?case
  proof (cases "n < 10")
    case True
    note nsmall = True
    show ?thesis
    proof (cases "b < 10")
      case True
      from "1.prems" have "[digit_char n] = [digit_char b]"
        by (simp only: decimal_small[OF nsmall] decimal_small[OF True])
      then have "digit_char n = digit_char b" by simp
      then show ?thesis by (rule digit_char_inj[OF nsmall True])
    next
      case False
      from "1.prems" have "[digit_char n] = decimal (b div 10) @ [digit_char (b mod 10)]"
        by (simp only: decimal_small[OF nsmall] decimal_large[OF False])
      then have "decimal (b div 10) = []" by simp
      then show ?thesis using decimal_nonempty by blast
    qed
  next
    case False
    note nlarge = False
    show ?thesis
    proof (cases "b < 10")
      case True
      from "1.prems" have "decimal (n div 10) @ [digit_char (n mod 10)] = [digit_char b]"
        by (simp only: decimal_small[OF True] decimal_large[OF nlarge])
      then have "decimal (n div 10) = []" by simp
      then show ?thesis using decimal_nonempty by blast
    next
      case False
      from "1.prems" have "decimal (n div 10) @ [digit_char (n mod 10)]
          = decimal (b div 10) @ [digit_char (b mod 10)]"
        by (simp only: decimal_large[OF False] decimal_large[OF nlarge])
      then have e1: "decimal (n div 10) = decimal (b div 10)"
        and e2: "digit_char (n mod 10) = digit_char (b mod 10)" by simp_all
      from "1.IH"[OF nlarge e1] have d: "n div 10 = b div 10" .
      have "n mod 10 < 10" "b mod 10 < 10" by simp_all
      then have m: "n mod 10 = b mod 10" using e2 by (rule digit_char_inj)
      have "n = 10 * (n div 10) + n mod 10" by simp
      also have "\<dots> = 10 * (b div 10) + b mod 10" by (simp only: d m)
      also have "\<dots> = b" by simp
      finally show ?thesis .
    qed
  qed
qed

lemma requestId_of_inj: "requestId_of a = requestId_of b \<Longrightarrow> a = b"
  by (simp add: requestId_of_def decimal_inj)

lemma settle_simps [simp]:
  "pendingRequests (settle r out c) = pendingRequests c"
  "requestIdCounter (settle r out c) = requestIdCounter c"
  "settled (settle r out c) = settled c @ [(r, out)]"
  "currentUrl (settle r out c) = currentUrl c"
  "viewport (settle r out c) = viewport c"
  "connected (settle r out c) = connected c"
  by (simp_all add: settle_def)

lemma delete_keys: "fst ` set (AList.delete k xs) = fst ` set xs - {k}"
  by (induction xs) auto

lemma inv_resolve_pending:
  assumes "channel_inv c" and "r \<in> fst ` set (pendingRequests c)"
    and "pendingRequests c' = pendingRequests c" and "settled c' = settled c"
    and "requestIdCounter c' = requestIdCounter c"
  shows "channel_inv (settle r out (c'\<lparr>pendingRequests := AList.delete r (pendingRequests c)\<rparr>))"
  using assms
  by (auto simp: channel_inv_def issued_upto_def delete_keys distinct_delete)

lemma update_currentUrl_simps [simp]:
  "pendingRequests (update_currentUrl m c) = pendingRequests c"
  "requestIdCounter (update_currentUrl m c) = requestIdCounter c"
  "settled (update_currentUrl m c) = settled c"
  "viewport (update_currentUrl m c) = viewport c"
  "connected (update_currentUrl m c) = connected c"
  by (simp_all add: update_currentUrl_def)

lemma map_of_keys: "map_of xs k = Some v \<Longrightarrow> k \<in> fst ` set xs"
  by (metis map_of_eq_None_iff option.distinct(1))

lemma inv_regular_response: "channel_inv c \<Longrightarrow> channel_inv (regular_response r m c)"
proof (cases "map_of (pendingRequests c) r")
  case None
  assume "channel_inv c"
  then show ?thesis using None by (simp add: regular_response_def)
next
  case (Some cmd)
  assume inv: "channel_inv c"
  have k: "r \<in> fst ` set (pendingRequests c)" using Some by (rule map_of_keys)
  have a: "channel_inv (settle r out (c\<lparr>pendingRequests := AList.delete r (pendingRequests c)\<rparr>))" for out
    by (rule inv_resolve_pending[OF inv k]) simp_all
  have "update_currentUrl m (c\<lparr>pendingRequests := AList.delete r (pendingRequests c)\<rparr>)
      = (update_currentUrl m c)\<lparr>pendingRequests := AList.delete r (pendingRequests c)\<rparr>"
    by (simp add: update_currentUrl_def)
  moreover have "channel_inv (settle r out
      ((update_currentUrl m c)\<lparr>pendingRequests := AList.delete r (pendingRequests c)\<rparr>))" for out
    by (rule inv_resolve_pending[OF inv k]) simp_all
  ultimately show ?thesis using Some a by (simp add: regular_response_def Let_def)
qed

lemma find_in_set: "find P xs = Some x \<Longrightarrow> x \<in> set xs"
  by (induction xs) (auto split: if_splits)

lemma inv_viewport_ack_fallback: "channel_inv c \<Longrightarrow> channel_inv (viewport_ack_fallback c)"
proof (cases "find (\<lambda>entry. snd entry = ''setViewportConfig'') (pendingRequests c)")
  case None
  assume "channel_inv c"
  then show ?thesis using None by (simp add: viewport_ack_fallback_def)
next
  case (Some entry)
  assume inv: "channel_inv c"
  have "entry \<in> set (pendingRequests c)" using Some by (rule find_in_set)
  then have k: "fst entry \<in> fst ` set (pendingRequests c)" by (rule imageI)
  have "channel_inv (settle (fst entry) (Resolved (viewport_ack c))
          (c\<lparr>pendingRequests := AList.delete (fst entry) (pendingRequests c)\<rparr>))"
    by (rule inv_resolve_pending[OF inv k]) simp_all
  then show ?thesis using Some by (simp add: viewport_ack_fallback_def)
qed

lemma inv_viewport_update: "channel_inv c \<Longrightarrow> channel_inv (c\<lparr>viewport := v\<rparr>)"
  by (simp add: channel_inv_def issued_upto_def)

lemma inv_handleMessageFromClient:
  "channel_inv c \<Longrightarrow> channel_inv (handleMessageFromClient m c)"
  by (auto simp: handleMessageFromClient_def inv_viewport_update inv_viewport_ack_fallback
        inv_regular_response split: option.splits)

lemma inv_timeoutCallback: "channel_inv c \<Longrightarrow> channel_inv (timeoutCallback r cmd c)"
proof (cases "r \<in> fst ` set (pendingRequests c)")
  case True
  assume inv: "channel_inv c"
  have "channel_inv (settle r out (c\<lparr>pendingRequests := AList.delete r (pendingRequests c)\<rparr>))" for out
    by (rule inv_resolve_pending[OF inv True]) simp_all
  moreover have "(settle r out c)\<lparr>pendingRequests := AList.delete r (pendingRequests c)\<rparr>
      = settle r out (c\<lparr>pendingRequests := AList.delete r (pendingRequests c)\<rparr>)" for out
    by (simp add: settle_def)
  ultimately show ?thesis using True by (simp only: timeoutCallback_def if_True)
next
  case False
  assume "channel_inv c"
  then show ?thesis using False by (simp add: timeoutCallback_def)
qed

lemma fold_settle_fields:
  "pendingRequests (fold (\<lambda>(reqId, cmd). settle reqId (Rejected err)) xs c) = pendingRequests c"
  "requestIdCounter (fold (\<lambda>(reqId, cmd). settle reqId (Rejected err)) xs c) = requestIdCounter c"
  "settled (fold (\<lambda>(reqId, cmd). settle reqId (Rejected err)) xs c)
     = settled c @ map (\<lambda>(reqId, cmd). (reqId, Rejected err)) xs"
  by (induction xs arbitrary: c) (auto simp: case_prod_beta)

lemma map_fst_rejected: "map fst (map (\<lambda>(reqId, cmd). (reqId, Rejected err)) xs) = map fst xs"
  by (simp add: case_prod_beta)

lemma inv_rejectAll: "channel_inv c \<Longrightarrow> channel_inv (rejectAll err c)"
proof -
  assume inv: "channel_inv c"
  have s: "map fst (settled (rejectAll err c)) = map fst (settled c) @ map fst (pendingRequests c)"
    by (simp add: rejectAll_def fold_settle_fields map_fst_rejected del: map_map)
  have p: "pendingRequests (rejectAll err c) = []" by (simp add: rejectAll_def)
  have n: "requestIdCounter (rejectAll err c) = requestIdCounter c"
    by (simp add: rejectAll_def fold_settle_fields)
  have d: "distinct (map fst (settled c) @ map fst (pendingRequests c))"
    using inv by (auto simp: channel_inv_def)
  have i: "set (map fst (settled c) @ map fst (pendingRequests c)) \<subseteq> issued c"
    using inv by (auto simp: channel_inv_def)
  have "issued (rejectAll err c) = issued c" using n by (simp add: issued_upto_def)
  then show ?thesis
    unfolding channel_inv_def using s p d i by (simp only: set_map[symmetric]) simp
qed

lemma issued_fresh: "requestId_of (requestIdCounter c) \<notin> issued c"
  by (auto simp: issued_upto_def dest: requestId_of_inj)

lemma update_keys: "fst ` set (AList.update k v xs) = insert k (fst ` set xs)"
  by (induction xs) auto

lemma inv_request: "channel_inv c \<Longrightarrow> channel_inv (send_and_wait cmd ok c)"
proof -
  assume inv: "channel_inv c"
  let ?r = "requestId_of (requestIdCounter c)"
  have mono: "issued c \<subseteq> issued (c\<lparr>requestIdCounter := requestIdCounter c + 1\<rparr>)"
    by (auto simp: issued_upto_def)
  have new: "?r \<in> issued (c\<lparr>requestIdCounter := requestIdCounter c + 1\<rparr>)"
    by (auto simp: issued_upto_def)
  have fresh: "?r \<notin> fst ` set (settled c)" "?r \<notin> fst ` set (pendingRequests c)"
    using inv issued_fresh[of c] by (auto simp: channel_inv_def)
  have bump: "channel_inv (c\<lparr>requestIdCounter := requestIdCounter c + 1\<rparr>)"
    using inv mono by (auto simp: channel_inv_def)
  have reg: "channel_inv (waitForResponse ?r cmd (c\<lparr>requestIdCounter := requestIdCounter c + 1\<rparr>))"
    using inv mono new fresh
    by (auto simp: channel_inv_def waitForResponse_def update_keys distinct_update)
  show ?thesis using bump reg
    by (simp add: send_and_wait_def sendMessageToClient_def Let_def split: option.splits)
qed

lemma inv_flag: "channel_inv c \<Longrightarrow> channel_inv (c\<lparr>connected := b\<rparr>)"
  by (simp add: channel_inv_def issued_upto_def)

lemma inv_step: "channel_inv c \<Longrightarrow> channel_inv (channel_step ev c)"
proof (cases ev)
  case Restart
  assume "channel_inv c"
  then show ?thesis using Restart by (simp add: channel_inv_def issued_upto_def)
next
  case (Stores v u)
  assume "channel_inv c"
  then show ?thesis using Stores by (simp add: channel_inv_def)
qed (simp_all add: inv_request inv_handleMessageFromClient inv_timeoutCallback inv_rejectAll inv_flag)

lemma inv_run: "channel_inv c \<Longrightarrow> channel_inv (channel_run evs c)"
  unfolding channel_run_def by (induction evs arbitrary: c) (simp_all add: inv_step)

lemma inv_client0: "channel_inv client0"
  by (simp add: channel_inv_def client0_def issued_upto_def)

lemma regular_response_dropped:
  "r \<notin> fst ` set (pendingRequests c) \<Longrightarrow> regular_response r m c = c"
proof -
  assume "r \<notin> fst ` set (pendingRequests c)"
  then have "map_of (pendingRequests c) r = None" by (simp add: map_of_eq_None_iff)
  then show ?thesis by (simp add: regular_response_def)
qed

lemma regular_response_removes:
  "r \<notin> fst ` set (pendingRequests (regular_response r m c))"
proof (cases "map_of (pendingRequests c) r")
  case None
  then have "r \<notin> fst ` set (pendingRequests c)" by (simp add: map_of_eq_None_iff)
  then show ?thesis by (simp add: regular_response_dropped)
next
  case (Some cmd)
  then show ?thesis by (simp add: regular_response_def delete_keys Let_def)
qed

lemma handle_regular:
  "msg_requestId m = Some r \<Longrightarrow> r \<noteq> [] \<Longrightarrow> \<not> viewport_sync m
   \<Longrightarrow> handleMessageFromClient m c = regular_response r m c"
  by (auto simp: handleMessageFromClient_def viewport_sync_def truthy_def)

lemma no_entry_dropped:
  "msg_requestId m = Some r \<Longrightarrow> r \<noteq> [] \<Longrightarrow> \<not> viewport_sync m
   \<Longrightarrow> r \<notin> fst ` set (pendingRequests c) \<Longrightarrow> handleMessageFromClient m c = c"
  by (simp add: handle_regular regular_response_dropped)

lemma entry_removed:
  "msg_requestId m = Some r \<Longrightarrow> r \<noteq> [] \<Longrightarrow> \<not> viewport_sync m
   \<Longrightarrow> r \<notin> fst ` set (pendingRequests (handleMessageFromClient m c))"
  by (simp add: handle_regular regular_response_removes)

lemma requestId_of_0: "requestId_of 0 = ''req-0''"
  by (simp add: requestId_of_def decimal_small digit_char_def)

lemma requestId_of_1: "requestId_of (Suc 0) = ''req-1''"
  by (simp add: requestId_of_def decimal_small digit_char_def)

lemma answered_once_eq:
  "answered_once =
     \<lparr>pendingRequests = [], requestIdCounter = 1, currentUrl = None, viewport = (800, 600),
      connected = True,
      settled = [(''req-0'', Resolved (success_response (reply ''req-0'' ''success'')))]\<rparr>"
  by (simp add: answered_once_def channel_run_def client0_def send_and_wait_def sendMessageToClient_def
      waitForResponse_def handleMessageFromClient_def regular_response_def reply_def truthy_def
      update_currentUrl_def settle_def requestId_of_0 Let_def)

lemma regular_response_settles:
  "map_of (pendingRequests c) r = Some cmd
   \<Longrightarrow> \<exists>out. settled (regular_response r m c) = settled c @ [(r, out)]"
  by (simp add: regular_response_def Let_def)

lemma pending_entry_settled:
  "msg_requestId m = Some r \<Longrightarrow> r \<noteq> [] \<Longrightarrow> \<not> viewport_sync m
   \<Longrightarrow> r \<in> fst ` set (pendingRequests c)
   \<Longrightarrow> \<exists>out. settled (handleMessageFromClient m c) = settled c @ [(r, out)]"
proof -
  assume m: "msg_requestId m = Some r" "r \<noteq> []" "\<not> viewport_sync m"
    and "r \<in> fst ` set (pendingRequests c)"
  then obtain cmd where "map_of (pendingRequests c) r = Some cmd"
    by (metis map_of_eq_None_iff not_Some_eq)
  from regular_response_settles[OF this] m show ?thesis by (simp add: handle_regular)
qed

lemma viewport_sync_only_sets_viewport:
  "msg_command m = Some ''viewportSync'' \<Longrightarrow> msg_viewport m = Some v
   \<Longrightarrow> handleMessageFromClient m c = c\<lparr>viewport := v\<rparr>"
  by (simp add: handleMessageFromClient_def)

lemma no_entry_no_promise:
  assumes "msg_requestId m = Some r" and "r \<noteq> []" and "r \<notin> fst ` set (pendingRequests c)"
  shows "settled (handleMessageFromClient m c) = settled c
         \<and> pendingRequests (handleMessageFromClient m c) = pendingRequests c
         \<and> currentUrl (handleMessageFromClient m c) = currentUrl c
         \<and> requestIdCounter (handleMessageFromClient m c) = requestIdCounter c
         \<and> connected (handleMessageFromClient m c) = connected c"
proof (cases "viewport_sync m")
  case True
  then obtain v where "msg_command m = Some ''viewportSync''" "msg_viewport m = Some v"
    by (auto simp: viewport_sync_def)
  then have "handleMessageFromClient m c = c\<lparr>viewport := v\<rparr>"
    by (rule viewport_sync_only_sets_viewport)
  then show ?thesis by simp
next
  case False
  with assms have "handleMessageFromClient m c = c" by (simp add: no_entry_dropped)
  then show ?thesis by simp
qed

lemma empty_id_is_no_id:
  "msg_requestId m = Some [] \<Longrightarrow>
   handleMessageFromClient m c = handleMessageFromClient (m\<lparr>msg_requestId := None\<rparr>) c"
  by (auto simp: handleMessageFromClient_def truthy_def split: option.splits)

lemma requestId_of_nonempty: "requestId_of n \<noteq> []"
  by (simp add: requestId_of_def)

text \<open>
  Claim C1.  In every run of the client each request id is settled at most once, only
  ids that were issued are settled, and between callbacks no settled id has a pending
  entry: the entry is deleted in the callback that settles it, before any continuation
  of the promise can run.  A message carries a request id when the field is present and
  not empty (the test \<open>!requestId\<close>): with an empty id it is handled as the same message
  without the field.  A message that carries the id of a pending entry
  settles that entry, once, and leaves the id without an entry; a message that carries
  an id without an entry, be it an id settled before or one never issued, touches no
  entry and no promise and changes nothing of the client.  The one message that is not
  a response, the \<open>viewportSync\<close> broadcast with which the extension announces its
  viewport, is recognised before the request id is read: whatever else it carries, it
  replaces the viewport of the client and nothing else.
\<close>

theorem channel_settles_each_request_at_most_once:
  "distinct (map fst (settled (channel_run evs client0))) \<and>
   fst ` set (settled (channel_run evs client0)) \<subseteq> issued (channel_run evs client0) \<and>
   fst ` set (pendingRequests (channel_run evs client0))
     \<inter> fst ` set (settled (channel_run evs client0)) = {} \<and>
   (\<forall>m r. msg_requestId m = Some r \<longrightarrow> r \<noteq> [] \<longrightarrow> \<not> viewport_sync m \<longrightarrow>
      r \<notin> fst ` set (pendingRequests (handleMessageFromClient m (channel_run evs client0))) \<and>
      (r \<in> fst ` set (pendingRequests (channel_run evs client0)) \<longrightarrow>
         (\<exists>out. settled (handleMessageFromClient m (channel_run evs client0))
                  = settled (channel_run evs client0) @ [(r, out)])) \<and>
      (r \<notin> fst ` set (pendingRequests (channel_run evs client0)) \<longrightarrow>
         handleMessageFromClient m (channel_run evs client0) = channel_run evs client0)) \<and>
   (\<forall>m r. msg_requestId m = Some r \<longrightarrow> r \<noteq> [] \<longrightarrow>
      r \<notin> fst ` set (pendingRequests (channel_run evs client0)) \<longrightarrow>
      settled (handleMessageFromClient m (channel_run evs client0))
        = settled (channel_run evs client0)
      \<and> pendingRequests (handleMessageFromClient m (channel_run evs client0))
        = pendingRequests (channel_run evs client0)
      \<and> currentUrl (handleMessageFromClient m (channel_run evs client0))
        = currentUrl (channel_run evs client0)
      \<and> requestIdCounter (handleMessageFromClient m (channel_run evs client0))
        = requestIdCounter (channel_run evs client0)
      \<and> connected (handleMessageFromClient m (channel_run evs client0))
        = connected (channel_run evs client0)) \<and>
   (\<forall>m n. msg_requestId m = Some (requestId_of n) \<longrightarrow> \<not> viewport_sync m \<longrightarrow>
      requestId_of n \<notin> fst ` set (pendingRequests (channel_run evs client0)) \<longrightarrow>
      handleMessageFromClient m (channel_run evs client0) = channel_run evs client0) \<and>
   (\<forall>m v. msg_command m = Some ''viewportSync'' \<longrightarrow> msg_viewport m = Some v \<longrightarrow>
      handleMessageFromClient m (channel_run evs client0)
        = (channel_run evs client0)\<lparr>viewport := v\<rparr>) \<and>
   (\<forall>m. msg_requestId m = Some [] \<longrightarrow>
      handleMessageFromClient m (channel_run evs client0)
        = handleMessageFromClient (m\<lparr>msg_requestId := None\<rparr>) (channel_run evs client0))"
proof -
  have "channel_inv (channel_run evs client0)" by (rule inv_run[OF inv_client0])
  then have "distinct (map fst (settled (channel_run evs client0)))"
    and "fst ` set (settled (channel_run evs client0)) \<subseteq> issued (channel_run evs client0)"
    and "fst ` set (pendingRequests (channel_run evs client0))
           \<inter> fst ` set (settled (channel_run evs client0)) = {}"
    by (simp_all add: channel_inv_def)
  moreover have "\<forall>m r. msg_requestId m = Some r \<longrightarrow> r \<noteq> [] \<longrightarrow>
      r \<notin> fst ` set (pendingRequests (channel_run evs client0)) \<longrightarrow>
      settled (handleMessageFromClient m (channel_run evs client0))
        = settled (channel_run evs client0)
      \<and> pendingRequests (handleMessageFromClient m (channel_run evs client0))
        = pendingRequests (channel_run evs client0)
      \<and> currentUrl (handleMessageFromClient m (channel_run evs client0))
        = currentUrl (channel_run evs client0)
      \<and> requestIdCounter (handleMessageFromClient m (channel_run evs client0))
        = requestIdCounter (channel_run evs client0)
      \<and> connected (handleMessageFromClient m (channel_run evs client0))
        = connected (channel_run evs client0)"
    using no_entry_no_promise by blast
  moreover have "\<forall>m. msg_requestId m = Some [] \<longrightarrow>
      handleMessageFromClient m (channel_run evs client0)
        = handleMessageFromClient (m\<lparr>msg_requestId := None\<rparr>) (channel_run evs client0)"
    using empty_id_is_no_id by blast
  ultimately show ?thesis
    by (simp add: entry_removed no_entry_dropped pending_entry_settled
        viewport_sync_only_sets_viewport requestId_of_nonempty)
qed

text \<open>
  A second delivery for \<open>req-0\<close>, this time an error, after it was resolved; and a
  \<open>viewportSync\<close> message delivered after it.
\<close>

theorem channel_settles_each_request_at_most_once_witness:
  "msg_requestId (reply ''req-0'' ''error'') = Some ''req-0'' \<and> ''req-0'' \<noteq> []
   \<and> \<not> viewport_sync (reply ''req-0'' ''error'')
   \<and> ''req-0'' \<notin> fst ` set (pendingRequests answered_once)
   \<and> handleMessageFromClient (reply ''req-0'' ''error'') answered_once = answered_once
   \<and> map fst (settled answered_once) = [''req-0'']
   \<and> distinct (map fst (settled answered_once))
   \<and> handleMessageFromClient stray_viewport_sync answered_once
       = answered_once\<lparr>viewport := (1280, 720)\<rparr>"
proof -
  have h1: "msg_requestId (reply ''req-0'' ''error'') = Some ''req-0''" by (simp add: reply_def)
  have h2: "''req-0'' \<noteq> []" by simp
  have h3: "\<not> viewport_sync (reply ''req-0'' ''error'')" by (simp add: viewport_sync_def reply_def)
  have h4: "''req-0'' \<notin> fst ` set (pendingRequests answered_once)" by (simp add: answered_once_eq)
  have h5: "msg_command stray_viewport_sync = Some ''viewportSync''"
    "msg_viewport stray_viewport_sync = Some (1280, 720)"
    by (simp_all add: stray_viewport_sync_def reply_def)
  have r: "answered_once = channel_run [Connect, Request ''click'' None, Deliver (reply (requestId_of 0) ''success'')] client0"
    by (simp add: answered_once_def)
  from channel_settles_each_request_at_most_once
         [of "[Connect, Request ''click'' None, Deliver (reply (requestId_of 0) ''success'')]"]
  have "distinct (map fst (settled answered_once))"
    and "handleMessageFromClient (reply ''req-0'' ''error'') answered_once = answered_once"
    and "handleMessageFromClient stray_viewport_sync answered_once
       = answered_once\<lparr>viewport := (1280, 720)\<rparr>"
    using h1 h2 h3 h4 h5 unfolding r[symmetric] by blast+
  moreover have "map fst (settled answered_once) = [''req-0'']" by (simp add: answered_once_eq)
  ultimately show ?thesis using h1 h2 h3 h4 by blast
qed

lemma two_viewport_requests_eq:
  "two_viewport_requests =
     \<lparr>pendingRequests = [(''req-0'', ''setViewportConfig''), (''req-1'', ''setViewportConfig'')],
      requestIdCounter = 2, currentUrl = None, viewport = (800, 600), connected = True,
      settled = []\<rparr>"
  by (simp add: two_viewport_requests_def channel_run_def client0_def send_and_wait_def
      sendMessageToClient_def waitForResponse_def requestId_of_0 requestId_of_1 Let_def)

text \<open>
  Claim C9.  An acknowledgement of \<open>setViewportConfig\<close> without a request id resolves the
  most recent matching pending entry.  The code resolves the first one in insertion
  order: with \<open>req-0\<close> and \<open>req-1\<close> both pending for \<open>setViewportConfig\<close>, the
  acknowledgement settles \<open>req-0\<close>, the oldest, and \<open>req-1\<close> stays pending.
\<close>

theorem viewport_ack_resolves_oldest_request:
  "map fst (pendingRequests two_viewport_requests) = [''req-0'', ''req-1'']
   \<and> map fst (settled (handleMessageFromClient bare_viewport_ack two_viewport_requests)) = [''req-0'']
   \<and> map fst (pendingRequests (handleMessageFromClient bare_viewport_ack two_viewport_requests))
       = [''req-1'']"
  by (simp add: two_viewport_requests_eq handleMessageFromClient_def bare_viewport_ack_def
      reply_def truthy_def viewport_ack_fallback_def settle_def)

text \<open>In general the fallback settles the oldest matching entry.\<close>

lemma viewport_ack_fallback_first:
  assumes "pendingRequests c = older @ (r, ''setViewportConfig'') # newer"
    and "\<forall>e\<in>set older. snd e \<noteq> ''setViewportConfig''"
  shows "settled (viewport_ack_fallback c) = settled c @ [(r, Resolved (viewport_ack c))]"
proof -
  have "find (\<lambda>entry. snd entry = ''setViewportConfig'') (older @ (r, ''setViewportConfig'') # newer)
        = Some (r, ''setViewportConfig'')"
    using assms(2) by (induction older) auto
  then show ?thesis using assms(1) by (simp add: viewport_ack_fallback_def)
qed

text \<open>Without a matching entry the acknowledgement is dropped.\<close>

lemma viewport_ack_without_match:
  assumes "\<forall>e\<in>set (pendingRequests c). snd e \<noteq> ''setViewportConfig''"
  shows "handleMessageFromClient bare_viewport_ack c = c"
proof -
  have "find (\<lambda>entry. snd entry = ''setViewportConfig'') (pendingRequests c) = None"
    using assms by (force simp: find_None_iff)
  then show ?thesis
    by (simp add: handleMessageFromClient_def bare_viewport_ack_def reply_def truthy_def
        viewport_ack_fallback_def)
qed

section \<open>Proofs: stability detector\<close>

lemma matches_equal_run: "1 \<le> k \<Longrightarrow> k \<le> matches vs \<longleftrightarrow> equal_run (k + 1) vs"
proof (induction vs arbitrary: k rule: matches.induct)
  case 1
  then show ?case by (simp add: equal_run_def)
next
  case (2 v)
  then show ?case by (simp add: equal_run_def)
next
  case (3 v w rest)
  show ?case
  proof (cases "w \<noteq> 0 \<and> v = w")
    case False
    then have "matches (v # w # rest) = 0" by simp
    moreover have "\<not> equal_run (k + 1) (v # w # rest)"
    proof
      assume "equal_run (k + 1) (v # w # rest)"
      then have "v \<noteq> 0" and "take (k + 1) (v # w # rest) = replicate (k + 1) v"
        by (simp_all add: equal_run_def)
      moreover obtain j where "k = Suc j" using "3.prems" by (cases k) auto
      ultimately have "v \<noteq> 0 \<and> w = v" by simp
      with False show False by simp
    qed
    ultimately show ?thesis using "3.prems" by simp
  next
    case True
    then have m: "matches (v # w # rest) = matches (w # rest) + 1" by simp
    show ?thesis
    proof (cases "k = 1")
      case True
      with \<open>w \<noteq> 0 \<and> v = w\<close> show ?thesis by (simp add: equal_run_def)
    next
      case False
      then obtain j where j: "k = Suc j" "1 \<le> j" using "3.prems" by (cases k) auto
      have "j \<le> matches (w # rest) \<longleftrightarrow> equal_run (j + 1) (w # rest)"
        using "3.IH"[OF True j(2)] .
      moreover have "equal_run (k + 1) (v # w # rest) \<longleftrightarrow> equal_run (j + 1) (w # rest)"
        using True j by (auto simp: equal_run_def)
      ultimately show ?thesis using m j by simp
    qed
  qed
qed

lemma never_stable_Nil [simp]: "never_stable k []"
  by (simp add: never_stable_def)

lemma never_stable_Cons:
  "never_stable k (v # vs) \<longleftrightarrow> \<not> equal_run (k + 1) (v # vs) \<and> never_stable k vs"
proof
  assume a: "never_stable k (v # vs)"
  have "\<not> equal_run (k + 1) (v # vs)" using a by (force simp: never_stable_def)
  moreover have "never_stable k vs"
    unfolding never_stable_def
  proof (intro allI impI)
    fix n assume "n < length vs"
    then have "Suc n < length (v # vs)" by simp
    with a have "\<not> equal_run (k + 1) (drop (Suc n) (v # vs))"
      unfolding never_stable_def by blast
    then show "\<not> equal_run (k + 1) (drop n vs)" by simp
  qed
  ultimately show "\<not> equal_run (k + 1) (v # vs) \<and> never_stable k vs" by simp
next
  assume a: "\<not> equal_run (k + 1) (v # vs) \<and> never_stable k vs"
  show "never_stable k (v # vs)"
    unfolding never_stable_def
  proof (intro allI impI)
    fix n assume n: "n < length (v # vs)"
    show "\<not> equal_run (k + 1) (drop n (v # vs))"
    proof (cases n)
      case 0
      with a show ?thesis by simp
    next
      case (Suc j)
      with n have "j < length vs" by simp
      with a have "\<not> equal_run (k + 1) (drop j vs)" by (simp add: never_stable_def)
      with Suc show ?thesis by simp
    qed
  qed
qed

lemma nextCount_matches: "tracks s \<Longrightarrow> nextCount s v = matches (v # history s)"
  by (cases "history s") (auto simp: tracks_def nextCount_def)

lemma stabilityLoop_decision:
  assumes "stabilityLoop T I N s ticks = Some (e, s')" and "tracks s"
    and "never_stable (nat N) (history s)" and "1 \<le> N"
  shows "if e = Stable
         then equal_run (nat N + 1) (history s') \<and> never_stable (nat N) (tl (history s'))
         else never_stable (nat N) (history s')"
  using assms
proof (induction ticks arbitrary: s)
  case Nil
  then show ?case by (auto split: if_splits)
next
  case (Cons t ts)
  show ?case
  proof (cases "elapsed s < T")
    case False
    with Cons.prems show ?thesis by auto
  next
    case True
    obtain r ec where g: "getHtmlSize (errorCount s) (tick_probe t) = (r, ec)"
      by (cases "getHtmlSize (errorCount s) (tick_probe t)")
    show ?thesis
    proof (cases r)
      case (Inl err)
      let ?s1 = "s\<lparr>errorCount := ec,
                    elapsed := elapsed s + int (tick_latency t) + sleep I\<rparr>"
      have tr: "tracks ?s1" "never_stable (nat N) (history ?s1)"
        using Cons.prems by (simp_all add: tracks_def)
      show ?thesis
      proof (cases "elapsed ?s1 > T - I")
        case True
        with Cons.prems \<open>elapsed s < T\<close> g Inl have "e = TimedOut" "s' = ?s1"
          by (simp_all add: Let_def)
        with tr show ?thesis by simp
      next
        case False
        with Cons.prems \<open>elapsed s < T\<close> g Inl
        have "stabilityLoop T I N ?s1 ts = Some (e, s')" by (simp add: Let_def)
        from Cons.IH[OF this tr \<open>1 \<le> N\<close>] show ?thesis .
      qed
    next
      case (Inr cur)
      let ?s1 = "s\<lparr>errorCount := ec, elapsed := elapsed s + int (tick_latency t)\<rparr>"
      let ?s2 = "?s1\<lparr>stableCount := nextCount s cur, history := cur # history s\<rparr>"
      let ?s3 = "?s2\<lparr>lastHTMLSize := cur, elapsed := elapsed ?s2 + sleep I\<rparr>"
      have nc: "nextCount s cur = matches (cur # history s)"
        using Cons.prems by (simp add: nextCount_matches)
      have iff: "N \<le> int (nextCount s cur) \<longleftrightarrow> equal_run (nat N + 1) (cur # history s)"
      proof -
        have "N \<le> int (nextCount s cur) \<longleftrightarrow> nat N \<le> matches (cur # history s)"
          using nc by auto
        also have "\<dots> \<longleftrightarrow> equal_run (nat N + 1) (cur # history s)"
          using \<open>1 \<le> N\<close> by (intro matches_equal_run) simp
        finally show ?thesis .
      qed
      show ?thesis
      proof (cases "cur = - 1")
        case True
        with Cons.prems \<open>elapsed s < T\<close> g Inr have "e = TabVanished" "s' = ?s1"
          by (simp_all add: Let_def)
        with Cons.prems show ?thesis by simp
      next
        case False
        note not_gone = False
        show ?thesis
        proof (cases "N \<le> int (nextCount s cur)")
          case True
          with Cons.prems \<open>elapsed s < T\<close> g Inr not_gone have "e = Stable" "s' = ?s2"
            by (simp_all add: Let_def)
          with True iff Cons.prems show ?thesis by simp
        next
          case False
          with Cons.prems \<open>elapsed s < T\<close> g Inr not_gone
          have run: "stabilityLoop T I N ?s3 ts = Some (e, s')" by (simp add: Let_def)
          have tr: "tracks ?s3" using nc by (simp add: tracks_def)
          have ns: "never_stable (nat N) (history ?s3)"
            using False iff Cons.prems by (simp add: never_stable_Cons)
          from Cons.IH[OF run tr ns \<open>1 \<le> N\<close>] show ?thesis .
        qed
      qed
    qed
  qed
qed

lemma tracks0: "tracks wait_state0"
  by (simp add: tracks_def wait_state0_def)

lemma stable_iff:
  assumes "waitTillHTMLStable T I N ticks = Some (e, s)" and "1 \<le> N"
  shows "(e = Stable \<longleftrightarrow> equal_run (nat N + 1) (history s))
         \<and> never_stable (nat N) (tl (history s))"
proof -
  have h0: "never_stable (nat N) (history wait_state0)" by (simp add: wait_state0_def)
  have run: "stabilityLoop T I N wait_state0 ticks = Some (e, s)"
    using assms(1) by (simp add: waitTillHTMLStable_def)
  have d: "if e = Stable
        then equal_run (nat N + 1) (history s) \<and> never_stable (nat N) (tl (history s))
        else never_stable (nat N) (history s)"
    by (rule stabilityLoop_decision[OF run tracks0 h0 assms(2)])
  show ?thesis
  proof (cases "e = Stable")
    case True
    with d show ?thesis by simp
  next
    case False
    with d have n: "never_stable (nat N) (history s)" by simp
    show ?thesis
    proof (cases "history s")
      case Nil
      with False show ?thesis by (simp add: equal_run_def)
    next
      case (Cons v vs)
      with n False show ?thesis by (simp add: never_stable_Cons)
    qed
  qed
qed




lemma three_equal_samples:
  "waitTillHTMLStable 1500 500 3 [sample 100, sample 100, sample 100]
   = Some (TimedOut, \<lparr>lastHTMLSize = 100, stableCount = 2, errorCount = 0, elapsed = 1650,
                      history = [100, 100, 100]\<rparr>)"
  by (simp add: waitTillHTMLStable_def wait_state0_def sample_def nextCount_def sleep_def)

lemma four_equal_samples:
  "waitTillHTMLStable 5000 500 3 [sample 100, sample 100, sample 100, sample 100]
   = Some (Stable, \<lparr>lastHTMLSize = 100, stableCount = 3, errorCount = 0, elapsed = 1700,
                    history = [100, 100, 100, 100]\<rparr>)"
  by (simp add: waitTillHTMLStable_def wait_state0_def sample_def nextCount_def sleep_def)

text \<open>
  Claim C4, as amended.  For \<open>stableIterations \<ge> 1\<close>, \<open>waitTillHTMLStable\<close> returns early as
  stable exactly when the \<open>stableIterations + 1\<close> most recent samples are equal and
  nonzero (\<open>stableIterations\<close> consecutive matches with the previous sample), and at no
  earlier sample of the call was that so.
\<close>

theorem stable_exactly_after_one_more_equal_sample:
  assumes "waitTillHTMLStable timeout checkInterval stableIterations ticks = Some (e, s)"
    and "1 \<le> stableIterations"
  shows "(e = Stable \<longleftrightarrow> equal_run (nat stableIterations + 1) (history s))
         \<and> never_stable (nat stableIterations) (tl (history s))"
  using assms by (rule stable_iff)

text \<open>Four samples of 100 with \<open>stableIterations = 3\<close>.\<close>

theorem stable_exactly_after_one_more_equal_sample_witness:
  "waitTillHTMLStable 5000 500 3 [sample 100, sample 100, sample 100, sample 100]
     = Some (Stable, \<lparr>lastHTMLSize = 100, stableCount = 3, errorCount = 0, elapsed = 1700,
                      history = [100, 100, 100, 100]\<rparr>)
   \<and> (1::int) \<le> 3
   \<and> equal_run 4 [100, 100, 100, 100]"
  using stable_exactly_after_one_more_equal_sample[OF four_equal_samples] four_equal_samples
  by simp

text \<open>
  Claim C4 as stated fails: with \<open>stableIterations = 3\<close>, three consecutive samples of
  100 are equal and nonzero, and the call runs into its timeout instead of returning
  stable.
\<close>

theorem three_equal_samples_not_stable:
  "equal_run 3 [100, 100, 100]
   \<and> waitTillHTMLStable 1500 500 3 [sample 100, sample 100, sample 100]
       = Some (TimedOut, \<lparr>lastHTMLSize = 100, stableCount = 2, errorCount = 0, elapsed = 1650,
                          history = [100, 100, 100]\<rparr>)"
  using three_equal_samples by (simp add: equal_run_def eval_nat_numeral)





section \<open>Proofs: busy-wait guard\<close>



lemma poll_time_Cons: "poll_time (p # ps) = 500 + int (poll_delay p) + poll_time ps"
  by (simp add: poll_time_def)




















section \<open>Proofs: the race of waitForTabOperationComplete and the click\<close>


lemma clear_timer_Unset [simp]: "clear_timer Unset = Unset"
  by (simp add: clear_timer_def)

lemma cancel_timer_Unset [simp]: "cancel_timer Unset = Unset"
  by (simp add: cancel_timer_def)












lemma race_run_append: "race_run (xs @ ys) r = race_run ys (race_run xs r)"
  by (simp add: race_run_def)

lemma race_run_Cons: "race_run (ev # evs) r = race_run evs (race_step ev r)"
  by (simp add: race_run_def)










lemma begin_is_running:
  "waitForTabOperationComplete ts after_wait = Inr r \<Longrightarrow> operationFn r = Running"
  by (auto simp: waitForTabOperationComplete_def Let_def split: option.splits)


lemma new_tab_before_throw_result:
  "operationFn (race_run new_tab_before_throw started_on_tab_1) = Running
   \<and> processing (race_run new_tab_before_throw started_on_tab_1) = [ProcessNewTab 2 1]
   \<and> settlements (race_run new_tab_before_throw started_on_tab_1)
       = [ResolvedFrom (ProcessNewTab 2 1)]"
  by (simp add: race_run_def new_tab_before_throw_def started_on_tab_1_def one_tab_def
      on_tabActivated_def tabActivatedHandler_def onActivated_listener_def
      on_lookupAnswered_def on_processingEnded_def setActiveTabId_def set_state_def clear_timer_def
      processed_tab_def Let_def)

lemma new_tab_then_throw_result:
  "settlements (race_run (new_tab_before_throw @ OperationThrew e # []) started_on_tab_1)
     = [ResolvedFrom (ProcessNewTab 2 1), RejectedByOperation e]
   \<and> processing (race_run (new_tab_before_throw @ OperationThrew e # []) started_on_tab_1)
     = [ProcessNewTab 2 1]"
  using new_tab_before_throw_result
  by (simp add: race_run_append race_run_Cons race_run_def[of "[]"] on_operationThrew_def)





lemma getActiveTabId_set_state [simp]:
  "getActiveTabId (set_state t st ts) = getActiveTabId ts"
  by (simp add: getActiveTabId_def set_state_def split: option.splits)




text \<open>
  White space of any kind around a number is trimmed: \<open>1,2\<close> after a no-break space,
  \<open>1\<close> after a byte order mark and \<open>2\<close> before a line separator, are coordinates.
\<close>

lemma trimmed_coordinates_are_good:
  "\<not> bad_coordinate (0xA0 # utf16 ''1,2'')"
  "\<not> bad_coordinate ([0xFEFF] @ utf16 ''1,2'' @ [0x2028])"
  by (simp_all add: bad_coordinate_def numeric_string_def trim_def is_space_def
      radix_literal_def unsigned_decimal_def strip_sign_def is_digit_def exponent_part_def
      utf16_def Let_def)




section \<open>Proofs: batch executor\<close>


lemma fail_fast_all_ok:
  "fail_fast ops entries \<Longrightarrow> \<forall>e\<in>set entries. \<not> is_failed e \<Longrightarrow> map entry_operation entries = ops"
  by (induction ops entries rule: fail_fast.induct) auto

lemma executed_append [simp]: "executed (xs @ ys) = executed xs @ executed ys"
  by (induction xs rule: executed.induct) simp_all





lemma finish_batch_success:
  assumes "finish_batch P m target run = (resp, fin)"
    and "currentTabId fin \<notin> set (openedTabIds (service (world fin)))
         \<or> tab_url P (currentTabId fin) (world fin) = Inr url"
  shows "br_status resp = ''success'' \<and> br_operations resp = Some (results fin)
         \<and> (br_message resp = TabGoneAfterBatch
            \<or> br_message resp = ExecutedOperations (length (operations_of m)))"
  using assms
  by (auto simp: finish_batch_def Let_def delete_state_def split: if_splits sum.splits)

lemma handleBatchCommand_run:
  assumes "operations_of m \<noteq> []" and "getActiveTabId (service w) = Some target"
    and "handleBatchCommand P m w = (resp, fin)"
  shows "finish_batch P m target
           (batchLoop P (interval_of m) (operations_of m) (start_run target w)) = (resp, fin)"
  using assms by (simp add: handleBatchCommand_def)






text \<open>
  Claim C10.  When a step of a non-empty batch has failed and the final tab still
  exists (its lookup succeeds, or it is no longer tracked and is not looked up), the
  response has the top-level status \<open>success\<close>; its message names the number of
  operations given, or the closed tab; the failure is recorded in the per-step list
  only.
\<close>

theorem failed_step_is_reported_as_success:
  assumes "operations_of m \<noteq> []" and "getActiveTabId (service w) = Some target"
    and "handleBatchCommand P m w = (resp, fin)"
    and "list_ex is_failed (results fin)"
    and "tab_url P (currentTabId fin) (world fin) = Inr url
         \<or> currentTabId fin \<notin> set (openedTabIds (service (world fin)))"
  shows "br_status resp = ''success''
    \<and> br_operations resp = Some (results fin)
    \<and> list_ex is_failed (results fin)
    \<and> (br_message resp = ExecutedOperations (length (operations_of m))
        \<or> br_message resp = TabGoneAfterBatch)"
proof -
  have fb: "finish_batch P m target
      (batchLoop P (interval_of m) (operations_of m) (start_run target w)) = (resp, fin)"
    using assms(1-3) by (rule handleBatchCommand_run)
  from finish_batch_success[OF fb, of url] assms(4,5) show ?thesis by blast
qed

lemma unknown_operation_fails:
  "op_name operation \<notin> {''click'', ''type'', ''press_key'', ''press_key_combo'', ''scroll'', ''wait''}
   \<Longrightarrow> executeOperation P operation ms w = (Inl (''Unsupported operation: '' @ op_name operation), w)"
  by (simp add: executeOperation_def Let_def)

lemma scenario_D_outcome:
  "fst scenario_D_result
     = \<lparr>br_status = ''success'', br_command = ''batch'', br_requestId = ''req-4'',
        br_message = ExecutedOperations 4, br_operations = Some scenario_D_entries,
        br_screenshot = Some ''data:image/jpeg;base64,AAAA'',
        br_currentUrl = Some ''https://example.com/'', br_tabId = Some 1\<rparr>
   \<and> results (snd scenario_D_result) = scenario_D_entries
   \<and> currentTabId (snd scenario_D_result) = 1
   \<and> executed (trace (snd scenario_D_result)) = [click_op, type_op, bad_op]
   \<and> browser (world (snd scenario_D_result)) = [ClickAt ''500,300'', TypeText ''hi'']"
  by (simp add: scenario_D_result_def handleBatchCommand_def scenario_D_def operations_of_def
      interval_of_def fresh_world_def one_tab_def getActiveTabId_def start_run_def set_state_def
      executeOperation_def click_op_def type_op_def bad_op_def no_parameters_def given_def
      recording_paths_def done_step_def switched_tab_def finish_batch_def delete_state_def
      scenario_D_entries_def Let_def)

lemma scenario_D_hypotheses:
  "operations_of scenario_D \<noteq> []" "getActiveTabId (service fresh_world) = Some 1"
  "handleBatchCommand recording_paths scenario_D fresh_world
     = (fst scenario_D_result, snd scenario_D_result)"
  by (simp_all add: scenario_D_def operations_of_def fresh_world_def one_tab_def
      getActiveTabId_def scenario_D_result_def)





text \<open>The same run: the unknown operation has failed and the response says \<open>success\<close>.\<close>

theorem failed_step_is_reported_as_success_witness:
  "operations_of scenario_D \<noteq> [] \<and> getActiveTabId (service fresh_world) = Some 1
   \<and> list_ex is_failed (results (snd scenario_D_result))
   \<and> tab_url recording_paths (currentTabId (snd scenario_D_result))
        (world (snd scenario_D_result)) = Inr ''https://example.com/''
   \<and> br_status (fst scenario_D_result) = ''success''
   \<and> br_operations (fst scenario_D_result) = Some (results (snd scenario_D_result))
   \<and> br_message (fst scenario_D_result) = ExecutedOperations 4"
proof -
  have h4: "list_ex is_failed (results (snd scenario_D_result))"
    using scenario_D_outcome by (simp add: scenario_D_entries_def is_failed_def)
  have h5: "tab_url recording_paths (currentTabId (snd scenario_D_result))
        (world (snd scenario_D_result)) = Inr ''https://example.com/''"
    by (simp add: recording_paths_def)
  from failed_step_is_reported_as_success[OF scenario_D_hypotheses h4 disjI1[OF h5]]
  have "br_status (fst scenario_D_result) = ''success''"
    and "br_operations (fst scenario_D_result) = Some (results (snd scenario_D_result))"
    by blast+
  with scenario_D_hypotheses(1,2) h4 h5 scenario_D_outcome show ?thesis by simp
qed

end
